theory Spec2Isabelle
  imports Complex_Main "HOL-Library.Monad_Syntax" "HOL-Library.Sublist"
begin

section \<open>The CSS minifier of css/css.go\<close>

text \<open>
  A shallow embedding of \<^verbatim>\<open>css/css.go\<close>.  Byte slices are \<open>string\<close>s (lists of
  8-bit characters).  Every procedure that writes to the output sink \<^verbatim>\<open>c.w\<close> returns
  the bytes it writes, in order; the sink is an in-memory buffer whose \<^verbatim>\<open>Write\<close>
  never fails, so the \<^verbatim>\<open>return err\<close> after a failed write is not a branch of the
  model.  A run-time panic of the Go code (an index or a slice bound out of range) is
  the result \<open>None\<close>.
\<close>

type_synonym bytes = string

subsection \<open>Tokens, grammar events and hashes of the parser package\<close>

text \<open>The token kinds of the lexer (\<^verbatim>\<open>css.TokenType\<close>), in the order of its declaration.\<close>

datatype TokenType =
    ErrorToken | IdentToken | FunctionToken | AtKeywordToken | HashToken
  | StringToken | BadStringToken | URLToken | BadURLToken | DelimToken
  | NumberToken | PercentageToken | DimensionToken | UnicodeRangeToken
  | IncludeMatchToken | DashMatchToken | PrefixMatchToken | SuffixMatchToken
  | SubstringMatchToken | ColumnToken | WhitespaceToken | CDOToken | CDCToken
  | ColonToken | SemicolonToken | CommaToken | LeftBracketToken | RightBracketToken
  | LeftParenthesisToken | RightParenthesisToken | LeftBraceToken | RightBraceToken
  | CommentToken | EmptyToken | CustomPropertyNameToken | CustomPropertyValueToken

text \<open>The grammar events of the parser (\<^verbatim>\<open>css.GrammarType\<close>).\<close>

datatype GrammarType =
    ErrorGrammar | CommentGrammar | AtRuleGrammar | BeginAtRuleGrammar | EndAtRuleGrammar
  | QualifiedRuleGrammar | BeginRulesetGrammar | EndRulesetGrammar | DeclarationGrammar
  | TokenGrammar | CustomPropertyGrammar

text \<open>
  \<^verbatim>\<open>css.Hash\<close>: the entries of the parser package's table of known names that
  \<^verbatim>\<open>css.go\<close> mentions, \<open>Hash0\<close> for the value 0 of a name that is not in the table,
  and \<open>OtherHash name\<close> for every other entry of the table (the colour keywords that
  key \<^verbatim>\<open>ShortenColorName\<close> among them).
\<close>

datatype Hash =
    Hash0
  | Import | Important | Filter | Font | Font_Family | Font_Weight
  | Margin | Padding | Border_Width
  | Outline | Border | Border_Bottom | Border_Left | Border_Right | Border_Top
  | Background | Box_Shadow | Ms_Filter
  | Rgb | Rgba | Hsl | Hsla | Local
  | Z_Index | Counter_Increment | Counter_Reset | Orphans | Widows | Flex
  | None_Hash | Normal | Bold
  | Xx_Small | X_Small | Small | Medium | Large | X_Large | Xx_Large | Smaller | Larger
  | Inherit | Initial | Unset
  | OtherHash string

text \<open>\<^verbatim>\<open>css.Token\<close>: a token kind and its bytes.\<close>

record css_Token =
  TokenType :: TokenType
  Data :: bytes

text \<open>
  \<^verbatim>\<open>Token\<close> (lines 238-242): a value of a declaration; \<open>Components\<close> is only filled
  for functions.
\<close>

record Token = css_Token +
  Components :: "css_Token list"

subsection \<open>What css.go takes from elsewhere\<close>

text \<open>
  The functions, tables and constants that \<^verbatim>\<open>css.go\<close> uses and that are not defined in
  it are parameters of the model, together with the two options of the \<^verbatim>\<open>Minifier\<close>
  struct: of the parser packages \<^verbatim>\<open>css.ToHash\<close>, \<^verbatim>\<open>css.IsIdent\<close>,
  \<^verbatim>\<open>css.IsURLUnquoted\<close>, \<^verbatim>\<open>css.HSL2RGB\<close>, \<^verbatim>\<open>parse.Number\<close>,
  \<^verbatim>\<open>parse.TrimWhitespace\<close> and \<^verbatim>\<open>parse.ReplaceMultipleWhitespace\<close>; of this
  repository \<^verbatim>\<open>minify.Number\<close>, \<^verbatim>\<open>minify.Decimal\<close>, \<^verbatim>\<open>minify.DataURI\<close>,
  \<^verbatim>\<open>minify.Epsilon\<close> and the tables \<^verbatim>\<open>ShortenColorHex\<close>, \<^verbatim>\<open>ShortenColorName\<close>
  and \<^verbatim>\<open>optionalZeroDimension\<close>.  Values of type \<^verbatim>\<open>float64\<close> are modelled as
  rational numbers: arithmetic is exact, and rounding, infinities and NaN are outside
  the model.
\<close>

record env =
  ToHash :: "bytes \<Rightarrow> Hash"
  IsIdent :: "bytes \<Rightarrow> bool"
  IsURLUnquoted :: "bytes \<Rightarrow> bool"
  HSL2RGB :: "rat \<Rightarrow> rat \<Rightarrow> rat \<Rightarrow> rat \<times> rat \<times> rat"
  parse_Number :: "bytes \<Rightarrow> nat"
  TrimWhitespace :: "bytes \<Rightarrow> bytes"
  ReplaceMultipleWhitespace :: "bytes \<Rightarrow> bytes"
  minify_Number :: "bytes \<Rightarrow> int \<Rightarrow> bytes"
  minify_Decimal :: "bytes \<Rightarrow> int \<Rightarrow> bytes"
  minify_DataURI :: "bytes \<Rightarrow> bytes"
  minify_Epsilon :: rat
  ShortenColorHex :: "bytes \<Rightarrow> bytes option"
  ShortenColorName :: "Hash \<Rightarrow> bytes option"
  optionalZeroDimension :: "bytes \<Rightarrow> bool"
  Decimals :: int
  KeepCSS2 :: bool

subsection \<open>Bytes\<close>

text \<open>
  \<^verbatim>\<open>parse.ToLower\<close>: every byte from \<^verbatim>\<open>'A'\<close> to \<^verbatim>\<open>'Z'\<close> becomes
  \<^verbatim>\<open>c + ('a' - 'A')\<close>.
\<close>

definition toLowerByte :: "char \<Rightarrow> char" where
  "toLowerByte c =
     (if 65 \<le> (of_char c :: nat) \<and> (of_char c :: nat) \<le> 90
      then char_of ((of_char c :: nat) + 32) else c)"

definition ToLower :: "bytes \<Rightarrow> bytes" where
  "ToLower src = map toLowerByte src"

text \<open>\<^verbatim>\<open>data[i]\<close>: the byte at an index, a panic out of range.\<close>

definition byteAt :: "bytes \<Rightarrow> nat \<Rightarrow> char option" where
  "byteAt data i = (if i < length data then Some (data ! i) else None)"

text \<open>\<^verbatim>\<open>len(data) == 1 && data[0] == '0'\<close>.\<close>

definition isZero :: "bytes \<Rightarrow> bool" where
  "isZero data = (data = ''0'')"

text \<open>\<^verbatim>\<open>bytes.Split(s, spaceBytes)\<close>: the pieces of \<open>s\<close> between single spaces.\<close>

fun splitSpace :: "bytes \<Rightarrow> bytes list" where
  "splitSpace [] = [[]]"
| "splitSpace (c # cs) =
     (if c = CHR '' '' then [] # splitSpace cs
      else (case splitSpace cs of [] \<Rightarrow> [[c]] | p # ps \<Rightarrow> (c # p) # ps))"

subsection \<open>Token.Equal (lines 252-262)\<close>

fun componentsEqual :: "css_Token list \<Rightarrow> css_Token list \<Rightarrow> bool" where
  "componentsEqual [] [] = True"
| "componentsEqual (x # xs) (y # ys) =
     (if TokenType x \<noteq> TokenType y \<or> Data x \<noteq> Data y then False
      else componentsEqual xs ys)"
| "componentsEqual _ _ = True"

definition Equal :: "Token \<Rightarrow> Token \<Rightarrow> bool" where
  "Equal a b =
     (if TokenType a = TokenType b \<and> Data a = Data b
         \<and> length (Components a) = length (Components b)
      then componentsEqual (Components a) (Components b)
      else False)"

subsection \<open>minifyProperty (lines 394-534)\<close>

text \<open>
  \<^verbatim>\<open>t.TokenType == css.DelimToken && t.Data[0] == '/'\<close>: the index is only
  evaluated for a delimiter, and panics on empty bytes.
\<close>

definition isSlash :: "'a css_Token_scheme \<Rightarrow> bool option" where
  "isSlash t =
     (if TokenType t = DelimToken
      then (case Data t of [] \<Rightarrow> None | c # _ \<Rightarrow> Some (c = CHR ''/''))
      else Some False)"

text \<open>The case \<^verbatim>\<open>css.Font_Family\<close> (lines 452-470), one value of the loop.\<close>

definition fontFamilyValue :: "env \<Rightarrow> Token \<Rightarrow> Token" where
  "fontFamilyValue env value =
     (if TokenType value = StringToken \<and> length (Data value) > 2 then
        (let data = ToLower (Data value);
             s = take (length data - 2) (drop 1 data);
             unquote =
               (if length s > 0
                then list_all (\<lambda>split. \<not> (length split = 0 \<or> \<not> IsIdent env split))
                       (splitSpace s)
                else True)
         in if unquote then value\<lparr>Data := s\<rparr> else value\<lparr>Data := data\<rparr>)
      else value)"

definition minifyFontFamily :: "env \<Rightarrow> Token list \<Rightarrow> Token list" where
  "minifyFontFamily env values = map (fontFamilyValue env) values"

text \<open>The case \<^verbatim>\<open>css.Font\<close> (lines 396-450).\<close>

definition isFontSizeKeyword :: "Hash \<Rightarrow> bool" where
  "isFontSizeKeyword h =
     (h = Xx_Small \<or> h = X_Small \<or> h = Small \<or> h = Medium \<or> h = Large \<or> h = X_Large
      \<or> h = Xx_Large \<or> h = Smaller \<or> h = Larger \<or> h = Inherit \<or> h = Initial \<or> h = Unset)"

text \<open>Lines 398-404: \<open>i\<close> after the search for the first comma in \<^verbatim>\<open>values[2:]\<close>.\<close>

definition fontFirstComma :: "Token list \<Rightarrow> nat" where
  "fontFirstComma values =
     (let rest = drop 2 values;
          j = length (takeWhile (\<lambda>value. TokenType value \<noteq> CommaToken) rest)
      in if j < length rest then 2 + j - 1 else length values)"

text \<open>Lines 407-419: the loop \<^verbatim>\<open>for ; i > 0; i--\<close>; the result is \<open>i\<close> at its exit.\<close>

fun fontScan :: "env \<Rightarrow> Token list \<Rightarrow> nat \<Rightarrow> nat option" where
  "fontScan env values 0 = Some 0"
| "fontScan env values (Suc k) =
     (case isSlash (values ! k) of
        None \<Rightarrow> None
      | Some True \<Rightarrow> Some (Suc k)
      | Some False \<Rightarrow>
          (if TokenType (values ! Suc k) \<noteq> IdentToken \<and> TokenType (values ! Suc k) \<noteq> StringToken
           then Some (Suc k)
           else if TokenType (values ! Suc k) = IdentToken
                   \<and> isFontSizeKeyword (ToHash env (Data (values ! Suc k)))
           then Some (Suc k)
           else fontScan env values k))"

text \<open>
  Lines 436-448: the loop \<^verbatim>\<open>for ; i > -1; i--\<close>; the last argument is \<open>i + 1\<close>.
  \<^verbatim>\<open>append(values[:i], values[i+1:]...)\<close> removes the value at \<open>i\<close>.
\<close>

fun fontWeights :: "env \<Rightarrow> Token list \<Rightarrow> nat \<Rightarrow> Token list" where
  "fontWeights env values 0 = values"
| "fontWeights env values (Suc i) =
     fontWeights env
       (if TokenType (values ! i) = IdentToken then
          (if ToHash env (Data (values ! i)) = Normal then take i values @ drop (Suc i) values
           else if ToHash env (Data (values ! i)) = Bold
           then values[i := (values ! i)\<lparr>TokenType := NumberToken, Data := ''700''\<rparr>]
           else values)
        else if TokenType (values ! i) = NumberToken \<and> Data (values ! i) = ''400''
        then take i values @ drop (Suc i) values
        else values)
       i"

definition minifyFont :: "env \<Rightarrow> Token list \<Rightarrow> Token list option" where
  "minifyFont env values =
     (if length values > 1 then
        do {
          i \<leftarrow> fontScan env values (fontFirstComma values - 1);
          let values = take (i + 1) values @ minifyFontFamily env (drop (i + 1) values);
          if i > 0 then
            do {
              slash \<leftarrow> (if i > 1 then isSlash (values ! (i - 1)) else Some False);
              let values =
                (if slash \<and> TokenType (values ! i) = IdentToken \<and> Data (values ! i) = ''normal''
                 then take (i - 1) values @ drop (i + 1) values else values);
              let i = (if slash then i - 2 else i);
              Some (fontWeights env values i)
            }
          else Some values
        }
      else Some values)"

text \<open>The case \<^verbatim>\<open>css.Font_Weight\<close> (lines 471-481).\<close>

definition minifyFontWeight :: "env \<Rightarrow> Hash \<Rightarrow> Token list \<Rightarrow> Token list" where
  "minifyFontWeight env prop values =
     (if length values = 1 \<and> TokenType (values ! 0) = IdentToken then
        (let val = ToHash env (Data (values ! 0)) in
         if prop = Font_Weight \<and> val = Normal
         then values[0 := (values ! 0)\<lparr>TokenType := NumberToken, Data := ''400''\<rparr>]
         else if val = Bold
         then values[0 := (values ! 0)\<lparr>TokenType := NumberToken, Data := ''700''\<rparr>]
         else values)
      else values)"

text \<open>The case \<^verbatim>\<open>css.Margin, css.Padding, css.Border_Width\<close> (lines 482-502).\<close>

definition minifyBox :: "Token list \<Rightarrow> Token list" where
  "minifyBox values =
     (let n = length values in
      if n = 2 then
        (if Equal (values ! 0) (values ! 1) then take 1 values else values)
      else if n = 3 then
        (if Equal (values ! 0) (values ! 1) \<and> Equal (values ! 0) (values ! 2) then take 1 values
         else if Equal (values ! 0) (values ! 2) then take 2 values
         else values)
      else if n = 4 then
        (if Equal (values ! 0) (values ! 1) \<and> Equal (values ! 0) (values ! 2)
            \<and> Equal (values ! 0) (values ! 3) then take 1 values
         else if Equal (values ! 0) (values ! 2) \<and> Equal (values ! 1) (values ! 3)
         then take 2 values
         else if Equal (values ! 1) (values ! 3) then take 3 values
         else values)
      else values)"

text \<open>
  The case \<^verbatim>\<open>css.Outline, css.Border, ...\<close> (lines 503-517).  The loop returns the
  values, \<open>none\<close> and \<open>iZero\<close> (\<open>None\<close> for -1); the second argument is the index of
  the first value of the list.
\<close>

fun borderScan ::
  "env \<Rightarrow> nat \<Rightarrow> bool \<Rightarrow> nat option \<Rightarrow> Token list \<Rightarrow> Token list \<times> bool \<times> nat option" where
  "borderScan env i none iZero [] = ([], none, iZero)"
| "borderScan env i none iZero (value # rest) =
     (if isZero (Data value) then
        (case borderScan env (Suc i) none (Some i) rest of
           (vs, n, z) \<Rightarrow> (value # vs, n, z))
      else if ToHash env (Data value) = None_Hash then
        (case borderScan env (Suc i) True iZero rest of
           (vs, n, z) \<Rightarrow> (value\<lparr>TokenType := NumberToken, Data := ''0''\<rparr> # vs, n, z))
      else
        (case borderScan env (Suc i) none iZero rest of
           (vs, n, z) \<Rightarrow> (value # vs, n, z)))"

definition minifyBorder :: "env \<Rightarrow> Token list \<Rightarrow> Token list" where
  "minifyBorder env values =
     (case borderScan env 0 False None values of
        (vs, none, iZero) \<Rightarrow>
          (case iZero of
             Some z \<Rightarrow> (if none then take z vs @ drop (Suc z) vs else vs)
           | None \<Rightarrow> vs))"

text \<open>The case \<^verbatim>\<open>css.Background\<close> (lines 518-522); \<^verbatim>\<open>values[0]\<close> panics on no values.\<close>

definition minifyBackground :: "env \<Rightarrow> Token list \<Rightarrow> Token list option" where
  "minifyBackground env values =
     (case values of
        [] \<Rightarrow> None
      | v # _ \<Rightarrow>
          (let ident = ToHash env (Data v) in
           if length values = 1 \<and> (ident = None_Hash \<or> Data v = ''#0000'')
           then Some (values[0 := v\<lparr>Data := ''0 0''\<rparr>])
           else Some values))"

text \<open>The case \<^verbatim>\<open>css.Box_Shadow\<close> (lines 523-526).\<close>

definition minifyBoxShadow :: "Token list \<Rightarrow> Token list" where
  "minifyBoxShadow values =
     (if length values = 4 \<and> isZero (Data (values ! 0)) \<and> isZero (Data (values ! 1))
         \<and> isZero (Data (values ! 2)) \<and> isZero (Data (values ! 3))
      then take 2 values else values)"

text \<open>
  The case \<^verbatim>\<open>css.Ms_Filter\<close> (lines 527-531); \<^verbatim>\<open>values[0]\<close> and the slice
  \<^verbatim>\<open>Data[1:len(Data)-1]\<close> can panic.
\<close>

definition minifyMsFilter :: "Token list \<Rightarrow> Token list option" where
  "minifyMsFilter values =
     (let alpha = ''progid:DXImageTransform.Microsoft.Alpha(Opacity='' in
      case values of
        [] \<Rightarrow> None
      | v # _ \<Rightarrow>
          (if TokenType v = StringToken then
             (if length (Data v) < 2 then None
              else if take (length alpha) (take (length (Data v) - 2) (drop 1 (Data v))) = alpha
              then Some (values[0 := v\<lparr>Data := take 1 (Data v) @ ''alpha(opacity=''
                                             @ drop (1 + length alpha) (Data v)\<rparr>])
              else Some values)
           else Some values))"

definition minifyProperty :: "env \<Rightarrow> Hash \<Rightarrow> Token list \<Rightarrow> Token list option" where
  "minifyProperty env prop values =
     (if prop = Font then minifyFont env values
      else if prop = Font_Family then Some (minifyFontFamily env values)
      else if prop = Font_Weight then Some (minifyFontWeight env prop values)
      else if prop = Margin \<or> prop = Padding \<or> prop = Border_Width then Some (minifyBox values)
      else if prop = Outline \<or> prop = Border \<or> prop = Border_Bottom \<or> prop = Border_Left
              \<or> prop = Border_Right \<or> prop = Border_Top then Some (minifyBorder env values)
      else if prop = Background then minifyBackground env values
      else if prop = Box_Shadow then Some (minifyBoxShadow values)
      else if prop = Ms_Filter then minifyMsFilter values
      else Some values)"

subsection \<open>removeStringNewlinex (lines 784-809)\<close>

text \<open>
  The inner loop \<^verbatim>\<open>for ; j < len(data); j++\<close> (lines 793-803), which moves the bytes
  to the front in place, followed by \<^verbatim>\<open>data = data[:i]\<close>.
\<close>

function removeInner :: "bytes \<Rightarrow> nat \<Rightarrow> nat \<Rightarrow> bytes" where
  "removeInner data i j =
     (if j < length data then
        (if data ! j = CHR 0x5C \<and> length data > j + 1
            \<and> (data ! (j + 1) = CHR 0x0A \<or> data ! (j + 1) = CHR 0x0D)
         then removeInner data i
                ((if data ! (j + 1) = CHR 0x0D \<and> length data > j + 2 \<and> data ! (j + 2) = CHR 0x0A
                  then j + 1 else j) + 1 + 1)
         else removeInner (data[i := data ! j]) (i + 1) (j + 1))
      else take i data)"
  by pat_completeness auto
termination
  by (relation "measure (\<lambda>(data, i, j). length data - j)") auto

declare removeInner.simps [simp del]

text \<open>The outer loop \<^verbatim>\<open>for i := 1; i < len(data)-2; i++\<close>.\<close>

function removeOuter :: "bytes \<Rightarrow> nat \<Rightarrow> bytes" where
  "removeOuter data i =
     (if i + 2 < length data then
        (if data ! i = CHR 0x5C \<and> (data ! (i + 1) = CHR 0x0A \<or> data ! (i + 1) = CHR 0x0D)
         then removeInner data i
                (if data ! (i + 1) = CHR 0x0D \<and> length data > i + 2 \<and> data ! (i + 2) = CHR 0x0A
                 then i + 2 + 1 else i + 2)
         else removeOuter data (i + 1))
      else data)"
  by pat_completeness auto
termination
  by (relation "measure (\<lambda>(data, i). length data - i)") auto

declare removeOuter.simps [simp del]

definition removeStringNewlinex :: "bytes \<Rightarrow> bytes" where
  "removeStringNewlinex data = removeOuter data 1"

subsection \<open>Numbers of the standard library\<close>

definition isDigit :: "char \<Rightarrow> bool" where
  "isDigit c = (48 \<le> (of_char c :: nat) \<and> (of_char c :: nat) \<le> 57)"

definition digitsValue :: "bytes \<Rightarrow> nat" where
  "digitsValue ds = foldl (\<lambda>a c. 10 * a + ((of_char c :: nat) - 48)) 0 ds"

text \<open>An optional sign in front of a text: whether it is \<^verbatim>\<open>-\<close>, and the rest.\<close>

definition splitSign :: "bytes \<Rightarrow> bool \<times> bytes" where
  "splitSign s =
     (case s of
        [] \<Rightarrow> (False, s)
      | c # r \<Rightarrow> if c = CHR ''-'' then (True, r) else if c = CHR ''+'' then (False, r) else (False, s))"

text \<open>
  \<^verbatim>\<open>strconv.ParseFloat(s, 32)\<close> on decimal texts: an optional sign, digits with an
  optional point (at least one digit), an optional exponent with at least one digit.
  \<open>None\<close> is the syntax error, with which Go returns the value 0.  The rounding to
  the nearest 32-bit float, the range error and the texts \<^verbatim>\<open>inf\<close>, \<^verbatim>\<open>nan\<close> and
  hexadecimal floats are outside the model.
\<close>

definition parseMantissa :: "bytes \<Rightarrow> bytes \<times> bytes \<times> bytes" where
  "parseMantissa s =
     (let ip = takeWhile isDigit s;
          s2 = dropWhile isDigit s
      in case s2 of
           [] \<Rightarrow> (ip, [], s2)
         | c # r \<Rightarrow> if c = CHR ''.'' then (ip, takeWhile isDigit r, dropWhile isDigit r)
                   else (ip, [], s2))"

definition parseExponent :: "bytes \<Rightarrow> (bool \<times> nat) option" where
  "parseExponent r =
     (let (eneg, ds) = splitSign r in
      if ds \<noteq> [] \<and> list_all isDigit ds then Some (eneg, digitsValue ds) else None)"

definition ParseFloat :: "bytes \<Rightarrow> rat option" where
  "ParseFloat s =
     (let (neg, s1) = splitSign s;
          (ip, fp, s3) = parseMantissa s1;
          mant = rat_of_nat (digitsValue (ip @ fp)) / 10 ^ length fp;
          sgn = (if neg then - 1 else 1)
      in if ip = [] \<and> fp = [] then None
         else (case s3 of
                 [] \<Rightarrow> Some (sgn * mant)
               | c # r \<Rightarrow>
                   if c = CHR ''e'' \<or> c = CHR ''E'' then
                     (case parseExponent r of
                        None \<Rightarrow> None
                      | Some (eneg, n) \<Rightarrow>
                          Some (if eneg then sgn * mant / 10 ^ n else sgn * mant * 10 ^ n))
                   else None))"

text \<open>The value that \<^verbatim>\<open>d, _ := strconv.ParseFloat(...)\<close> binds.\<close>

definition floatOf :: "bytes \<Rightarrow> rat" where
  "floatOf s = (case ParseFloat s of None \<Rightarrow> 0 | Some d \<Rightarrow> d)"

text \<open>
  The value that \<^verbatim>\<open>d, _ := strconv.ParseInt(s, 10, 32)\<close> binds: 0 on a syntax error,
  the nearest 32-bit value on a range error.
\<close>

definition intOf :: "bytes \<Rightarrow> int" where
  "intOf s =
     (let (neg, ds) = splitSign s in
      if ds \<noteq> [] \<and> list_all isDigit ds
      then (if neg then max (- (2 ^ 31)) (- int (digitsValue ds))
            else min (2 ^ 31 - 1) (int (digitsValue ds)))
      else 0)"

text \<open>
  \<^verbatim>\<open>byte(x)\<close> of a \<^verbatim>\<open>float64\<close>: the fraction is dropped.  Outside 0..255 Go leaves
  the result to the implementation; the model keeps the low eight bits.
\<close>

definition byteOf :: "rat \<Rightarrow> nat" where
  "byteOf x = nat ((if x < 0 then - \<lfloor>- x\<rfloor> else \<lfloor>x\<rfloor>) mod 256)"

text \<open>\<^verbatim>\<open>hex.Encode\<close>: two lower-case hexadecimal digits for every byte.\<close>

definition hexDigit :: "nat \<Rightarrow> char" where
  "hexDigit n = ''0123456789abcdef'' ! (n mod 16)"

definition hexEncode :: "nat list \<Rightarrow> bytes" where
  "hexEncode bs = concat (map (\<lambda>b. [hexDigit (b div 16), hexDigit b]) bs)"

subsection \<open>shortenToken (lines 708-782)\<close>

text \<open>
  The two in-place collapses of a hex colour: \<^verbatim>\<open>data[2] = data[3]; data[3] = data[5];
  data = data[:4]\<close> and the same with \<^verbatim>\<open>data[4] = data[7]; data = data[:5]\<close>.
\<close>

definition pairs3 :: "bytes \<Rightarrow> bool" where
  "pairs3 data = (data ! 1 = data ! 2 \<and> data ! 3 = data ! 4 \<and> data ! 5 = data ! 6)"

definition collapse3 :: "bytes \<Rightarrow> bytes" where
  "collapse3 data =
     (let data = data[2 := data ! 3];
          data = data[3 := data ! 5]
      in take 4 data)"

definition collapse4 :: "bytes \<Rightarrow> bytes" where
  "collapse4 data =
     (let data = data[2 := data ! 3];
          data = data[3 := data ! 5];
          data = data[4 := data ! 7]
      in take 5 data)"

text \<open>The branch for numbers, percentages and dimensions (lines 709-730).\<close>

definition shortenNumber :: "env \<Rightarrow> Hash \<Rightarrow> TokenType \<Rightarrow> bytes \<Rightarrow> (TokenType \<times> bytes) option" where
  "shortenNumber env prop tt data =
     (if tt = NumberToken
         \<and> (prop = Z_Index \<or> prop = Counter_Increment \<or> prop = Counter_Reset
             \<or> prop = Orphans \<or> prop = Widows)
      then Some (tt, data)
      else
        (let n = (if tt = PercentageToken then int (length data) - 1
                  else if tt = DimensionToken then int (parse_Number env data)
                  else int (length data))
         in if n < 0 \<or> int (length data) < n then None
            else
              (let dim = ToLower (drop (nat n) data);
                   num = (if \<not> KeepCSS2 env then minify_Number env (take (nat n) data) (Decimals env)
                          else minify_Decimal env (take (nat n) data) (Decimals env))
               in if tt = DimensionToken
                     \<and> (\<not> isZero num \<or> \<not> optionalZeroDimension env dim \<or> prop = Flex)
                  then Some (tt, num @ dim)
                  else if tt = PercentageToken then Some (tt, num @ ''%'')
                  else Some (tt, num))))"

text \<open>
  The branch for identifiers (lines 731-736).  \<^verbatim>\<open>parse.ToLower(parse.Copy(data))\<close>
  lowers a copy that nothing reads afterwards; the table is looked up with the hash of
  \<open>data\<close> itself.
\<close>

definition shortenIdent :: "env \<Rightarrow> TokenType \<Rightarrow> bytes \<Rightarrow> TokenType \<times> bytes" where
  "shortenIdent env tt data =
     (let copy = ToLower data in
      case ShortenColorName env (ToHash env data) of
        Some hex \<Rightarrow> (HashToken, hex)
      | None \<Rightarrow> (tt, data))"

text \<open>The branch for hash tokens (lines 737-760).\<close>

definition shortenHash :: "env \<Rightarrow> TokenType \<Rightarrow> bytes \<Rightarrow> TokenType \<times> bytes" where
  "shortenHash env tt data =
     (let data = ToLower data;
          data = (if length data = 9 \<and> data ! 7 = data ! 8 then
                    (if data ! 7 = CHR ''f'' then take 7 data
                     else if data ! 7 = CHR ''0'' then ''#0000''
                     else data)
                  else data)
      in case ShortenColorHex env data of
           Some ident \<Rightarrow> (IdentToken, ident)
         | None \<Rightarrow>
             if length data = 7 \<and> pairs3 data then (HashToken, collapse3 data)
             else if length data = 9 \<and> pairs3 data \<and> data ! 7 = data ! 8
             then (HashToken, collapse4 data)
             else (tt, data))"

text \<open>
  The branch for URLs (lines 763-780).  \<^verbatim>\<open>data[:3]\<close> is taken to panic on fewer than
  three bytes, \<^verbatim>\<open>uri[0]\<close> panics on an empty \<open>uri\<close>, and \<^verbatim>\<open>uri[1:len(uri)-1]\<close>
  on fewer than two bytes.
\<close>

definition shortenURL :: "env \<Rightarrow> TokenType \<Rightarrow> bytes \<Rightarrow> (TokenType \<times> bytes) option" where
  "shortenURL env tt data =
     (if length data < 3 then None
      else
        (let data = ToLower (take 3 data) @ drop 3 data in
         if length data > 10 then
           (let uri = TrimWhitespace env (take (length data - 5) (drop 4 data)) in
            case uri of
              [] \<Rightarrow> None
            | c # _ \<Rightarrow>
                do {
                  (delim, uri) \<leftarrow>
                    (if c = CHR 0x27 \<or> c = CHR 0x22 then
                       (let uri = removeStringNewlinex uri in
                        if length uri < 2 then None
                        else Some (c, take (length uri - 2) (drop 1 uri)))
                     else Some (CHR 0x22, uri));
                  let uri = minify_DataURI env uri;
                  if IsURLUnquoted env uri then Some (tt, ''url('' @ uri @ '')'')
                  else Some (tt, ''url('' @ [delim] @ uri @ [delim] @ '')'')
                })
         else Some (tt, data)))"

definition shortenToken :: "env \<Rightarrow> Hash \<Rightarrow> TokenType \<Rightarrow> bytes \<Rightarrow> (TokenType \<times> bytes) option" where
  "shortenToken env prop tt data =
     (if tt = NumberToken \<or> tt = PercentageToken \<or> tt = DimensionToken
      then shortenNumber env prop tt data
      else if tt = IdentToken then Some (shortenIdent env tt data)
      else if tt = HashToken then Some (shortenHash env tt data)
      else if tt = StringToken then Some (tt, removeStringNewlinex data)
      else if tt = URLToken then shortenURL env tt data
      else Some (tt, data))"

subsection \<open>minifyFunction (lines 536-706)\<close>

text \<open>
  Line 544, \<open>separator\<close> for the token at index \<open>i\<close> of \<^verbatim>\<open>values[1 : n-1]\<close>;
  \<^verbatim>\<open>value.Data[0]\<close> is only evaluated for a delimiter at index 5.
\<close>

definition isSeparator :: "nat \<Rightarrow> css_Token \<Rightarrow> bool option" where
  "isSeparator i value =
     (if TokenType value = CommaToken then Some True
      else if i \<noteq> 5 \<and> TokenType value = WhitespaceToken then Some True
      else if i = 5 \<and> TokenType value = DelimToken then
        (case Data value of [] \<Rightarrow> None | c # _ \<Rightarrow> Some (c = CHR ''/''))
      else Some False)"

definition isNumeric :: "css_Token \<Rightarrow> bool" where
  "isNumeric value = (TokenType value = NumberToken \<or> TokenType value = PercentageToken)"

text \<open>
  The loop of lines 542-550 over \<^verbatim>\<open>values[1 : n-1]\<close>, from index \<open>i\<close> on: \<open>valid\<close>,
  and for \<open>vals\<close> the indices in \<open>values\<close> of the tokens it points to.
\<close>

fun scanArguments :: "nat \<Rightarrow> css_Token list \<Rightarrow> (bool \<times> nat list) option" where
  "scanArguments i [] = Some (True, [])"
| "scanArguments i (value # rest) =
     do {
       separator \<leftarrow> isSeparator i value;
       (valid, vals) \<leftarrow> scanArguments (Suc i) rest;
       (if (i mod 2 = 0 \<and> \<not> isNumeric value) \<or> (i mod 2 = 1 \<and> \<not> separator)
        then Some (False, vals)
        else if isNumeric value then Some (valid, (i + 1) # vals)
        else Some (valid, vals))
     }"

text \<open>Lines 553-555: \<^verbatim>\<open>shortenToken\<close> through each pointer of \<open>vals\<close>.\<close>

fun shortenArguments :: "env \<Rightarrow> nat list \<Rightarrow> css_Token list \<Rightarrow> css_Token list option" where
  "shortenArguments env [] values = Some values"
| "shortenArguments env (k # ks) values =
     do {
       (tt, data) \<leftarrow> shortenToken env Hash0 (TokenType (values ! k)) (Data (values ! k));
       shortenArguments env ks (values[k := (values ! k)\<lparr>TokenType := tt, Data := data\<rparr>])
     }"

text \<open>
  Lines 604-622 and 659-677: what is written for the nine bytes \<open>val\<close> of a colour
  with alpha byte \<open>a\<close>, when something is written.
\<close>

definition shortenColor :: "env \<Rightarrow> bytes \<Rightarrow> nat \<Rightarrow> bytes" where
  "shortenColor env val a =
     (if a = 255 then
        (case ShortenColorHex env (take 7 val) of
           Some s \<Rightarrow> s
         | None \<Rightarrow> if pairs3 val then collapse3 val else take 7 val)
      else if pairs3 val \<and> val ! 7 = val ! 8 then collapse4 val
      else val)"

text \<open>Lines 580-598: one channel of \<^verbatim>\<open>rgb()\<close>.\<close>

definition rgbChannel :: "css_Token \<Rightarrow> nat option" where
  "rgbChannel val =
     (if TokenType val = NumberToken then
        (let d = intOf (Data val);
             d = (if d < 0 then 0 else if d > 255 then 255 else d)
         in Some (nat d))
      else if TokenType val = PercentageToken then
        (if Data val = [] then None
         else
           (let d = floatOf (butlast (Data val));
                d = (if d < 0 then 0 else if d > 100 then 100 else d)
            in Some (byteOf (d / 100 * 255 + 1 / 2))))
      else Some 0)"

text \<open>
  Lines 639-641: \<^verbatim>\<open>for h > 360.0 { h -= 360.0 }\<close>.  On rational numbers the loop
  always ends.  On \<^verbatim>\<open>float64\<close> it does not end for \<^verbatim>\<open>+Inf\<close>, nor for a hue so
  large that subtracting 360 leaves it unchanged; such hues are outside the model.
\<close>

function hueLoop :: "rat \<Rightarrow> rat" where
  "hueLoop h = (if h > 360 then hueLoop (h - 360) else h)"
  by pat_completeness auto
termination
  by (relation "measure (\<lambda>h. nat \<lceil>h\<rceil>)") (auto simp: ceiling_diff_numeral [symmetric] simp del: ceiling_diff_numeral, linarith)

declare hueLoop.simps [simp del]

definition clampPercent :: "rat \<Rightarrow> rat" where
  "clampPercent s = (if s < 0 then 0 else if s > 100 then 100 else s)"

text \<open>Lines 636-654: the four bytes of an \<^verbatim>\<open>hsl()\<close> colour.\<close>

definition hslBytes :: "env \<Rightarrow> css_Token \<Rightarrow> css_Token \<Rightarrow> css_Token \<Rightarrow> nat \<Rightarrow> nat list option" where
  "hslBytes env v0 v1 v2 a =
     (if Data v1 = [] \<or> Data v2 = [] then None
      else
        (let h = hueLoop (floatOf (Data v0));
             s = clampPercent (floatOf (butlast (Data v1)));
             l = clampPercent (floatOf (butlast (Data v2)))
         in case HSL2RGB env (h / 360) (s / 100) (l / 100) of
              (r, g, b) \<Rightarrow>
                Some [byteOf (r * 255 + 1 / 2), byteOf (g * 255 + 1 / 2),
                      byteOf (b * 255 + 1 / 2), a]))"

text \<open>The final loop (lines 700-704).\<close>

definition writeValues :: "css_Token list \<Rightarrow> bytes" where
  "writeValues values = concat (map Data values)"

text \<open>
  Lines 552-687, for a valid argument list: \<open>vals\<close> are the indices of the numeric
  tokens.  The alpha argument is \<^verbatim>\<open>values[7]\<close>.
\<close>

definition setData :: "css_Token list \<Rightarrow> nat \<Rightarrow> bytes \<Rightarrow> css_Token list" where
  "setData values k d = values[k := (values ! k)\<lparr>Data := d\<rparr>]"

text \<open>\<^verbatim>\<open>*vals[j]\<close>: the token that the pointer \<open>vals[j]\<close> points to.\<close>

definition argument :: "css_Token list \<Rightarrow> nat list \<Rightarrow> nat \<Rightarrow> css_Token" where
  "argument values vals j = values ! (vals ! j)"

definition minifyColor :: "env \<Rightarrow> Hash \<Rightarrow> nat list \<Rightarrow> css_Token list \<Rightarrow> bytes option" where
  "minifyColor env fn vals values0 =
     do {
       values \<leftarrow> shortenArguments env vals values0;
       let d = (if length vals = 4 then floatOf (Data (values ! 7)) else 0);
       if length vals = 4 \<and> d < minify_Epsilon env then Some ''#0000''
       else
         (let values = (if length vals = 4 \<and> d \<ge> 1 then take 7 values else values);
              a = (if length vals = 4 \<and> \<not> d \<ge> 1 then byteOf (d * 255 + 1 / 2) else 255)
          in if (fn = Rgb \<or> fn = Rgba) \<and> (length vals = 3 \<or> length vals = 4) then
               (let values = (if \<not> KeepCSS2 env \<and> fn = Rgba
                              then setData values 0 ''rgb('' else values)
                in do {
                     r \<leftarrow> rgbChannel (argument values vals 0);
                     g \<leftarrow> rgbChannel (argument values vals 1);
                     b \<leftarrow> rgbChannel (argument values vals 2);
                     let val = ToLower (CHR ''#'' # hexEncode [r, g, b, a]);
                     if a = 255 \<or> \<not> KeepCSS2 env then Some (shortenColor env val a)
                     else Some (writeValues values)
                   })
             else if (fn = Hsl \<or> fn = Hsla) \<and> (length vals = 3 \<or> length vals = 4) then
               (let values = (if \<not> KeepCSS2 env \<and> fn = Hsla
                              then setData values 0 ''hsl('' else values);
                    v0 = argument values vals 0;
                    v1 = argument values vals 1;
                    v2 = argument values vals 2
                in if TokenType v0 = NumberToken \<and> TokenType v1 = PercentageToken
                      \<and> TokenType v2 = PercentageToken
                   then do {
                          rgba \<leftarrow> hslBytes env v0 v1 v2 a;
                          let val = ToLower (CHR ''#'' # hexEncode rgba);
                          if a = 255 \<or> \<not> KeepCSS2 env then Some (shortenColor env val a)
                          else Some []
                        }
                   else Some (writeValues values))
             else Some (writeValues values))
     }"

text \<open>
  \<^verbatim>\<open>values[0].Data[0 : len(values[0].Data)-1]\<close> panics on empty bytes; in the branch
  of \<^verbatim>\<open>local()\<close>, \<^verbatim>\<open>data[0]\<close> panics on empty bytes and \<^verbatim>\<open>data[1 : len(data)-1]\<close>
  on fewer than two.
\<close>

definition minifyFunction :: "env \<Rightarrow> css_Token list \<Rightarrow> bytes option" where
  "minifyFunction env values =
     (let n = length values in
      if n > 2 then
        (if Data (values ! 0) = [] then None
         else
           (let fn = ToHash env (butlast (Data (values ! 0))) in
            if fn = Rgb \<or> fn = Rgba \<or> fn = Hsl \<or> fn = Hsla then
              do {
                (valid, vals) \<leftarrow> scanArguments 0 (take (n - 2) (drop 1 values));
                if valid then minifyColor env fn vals values else Some (writeValues values)
              }
            else if fn = Local \<and> n = 3 then
              (case Data (values ! 1) of
                 [] \<Rightarrow> None
               | c # _ \<Rightarrow>
                   if c = CHR 0x27 \<or> c = CHR 0x22 then
                     (let data = removeStringNewlinex (Data (values ! 1)) in
                      if length data < 2 then None
                      else
                        (let inner = take (length data - 2) (drop 1 data);
                             data = (if IsURLUnquoted env inner then inner else data)
                         in Some (writeValues (setData values 1 data))))
                   else Some (writeValues values))
            else Some (writeValues values)))
      else Some (writeValues values))"

subsection \<open>minifyDeclaration (lines 264-392)\<close>

text \<open>
  Lines 269-274: the components without a trailing \<^verbatim>\<open>!important\<close>, and the flag
  \<open>important\<close>.  \<^verbatim>\<open>Data[0]\<close> of an empty delimiter panics.
\<close>

definition stripImportant :: "env \<Rightarrow> css_Token list \<Rightarrow> (css_Token list \<times> bool) option" where
  "stripImportant env components =
     (let n = length components in
      if n > 2 \<and> TokenType (components ! (n - 2)) = DelimToken then
        (case Data (components ! (n - 2)) of
           [] \<Rightarrow> None
         | c # _ \<Rightarrow>
             if c = CHR ''!'' \<and> ToHash env (Data (components ! (n - 1))) = Important
             then Some (take (n - 2) components, True)
             else Some (components, False))
      else Some (components, False))"

text \<open>
  Lines 299-311: the number of tokens after a function token that belong to it, up to
  and including the closing parenthesis at \<open>level\<close> 0.
\<close>

fun functionEnd :: "css_Token list \<Rightarrow> nat \<Rightarrow> nat" where
  "functionEnd [] level = 0"
| "functionEnd (t # ts) level =
     (if TokenType t = LeftParenthesisToken then Suc (functionEnd ts (Suc level))
      else if TokenType t = RightParenthesisToken then
        (case level of 0 \<Rightarrow> 1 | Suc l \<Rightarrow> Suc (functionEnd ts l))
      else Suc (functionEnd ts level))"

definition isBlockDelimiter :: "TokenType \<Rightarrow> bool" where
  "isBlockDelimiter tt =
     (tt = LeftParenthesisToken \<or> tt = LeftBraceToken \<or> tt = LeftBracketToken
      \<or> tt = RightParenthesisToken \<or> tt = RightBraceToken \<or> tt = RightBracketToken)"

definition plainValue :: "css_Token \<Rightarrow> Token" where
  "plainValue component = \<lparr>TokenType = TokenType component, Data = Data component, Components = []\<rparr>"

text \<open>
  Lines 277-318: the loop over \<^verbatim>\<open>components[i:]\<close> with the current \<open>prevSep\<close> and
  \<open>values\<close>; the result is \<open>simple\<close> and \<open>values\<close> at its exit.
\<close>

function segment :: "css_Token list \<Rightarrow> bool \<Rightarrow> Token list \<Rightarrow> (bool \<times> Token list) option" where
  "segment [] prevSep values = Some (True, values)"
| "segment (component # rest) prevSep values =
     (if isBlockDelimiter (TokenType component) then Some (False, values)
      else
        (case isSlash component of
           None \<Rightarrow> None
         | Some slash \<Rightarrow>
             (let sep = (TokenType component = WhitespaceToken \<or> TokenType component = CommaToken \<or> slash) in
              if \<not> prevSep \<and> \<not> sep then Some (False, values)
              else if sep then
                segment rest True
                  (if TokenType component \<noteq> WhitespaceToken then values @ [plainValue component] else values)
              else if TokenType component = FunctionToken then
                segment (drop (functionEnd rest 0) rest) False
                  (values @ [\<lparr>TokenType = TokenType component, Data = Data component,
                               Components = component # take (functionEnd rest 0) rest\<rparr>])
              else segment rest False (values @ [plainValue component]))))"
  by pat_completeness auto
termination
  by (relation "measure (\<lambda>(components, prevSep, values). length components)") auto

text \<open>
  Lines 324-338: the rewriting of the \<^verbatim>\<open>progid\<close> filter.  The conditions are evaluated
  from left to right; \<^verbatim>\<open>Data[0]\<close> panics on empty bytes, and \<^verbatim>\<open>parse.ToLower\<close> lowers
  the bytes of \<^verbatim>\<open>components[7]\<close> in place.
\<close>

definition filterRewrite :: "css_Token list \<Rightarrow> css_Token list option" where
  "filterRewrite components =
     (if Data (components ! 0) = ''progid'' \<and> TokenType (components ! 1) = ColonToken
         \<and> Data (components ! 2) = ''DXImageTransform''
      then
        do {
          c3 \<leftarrow> byteAt (Data (components ! 3)) 0;
          if c3 = CHR ''.'' \<and> Data (components ! 4) = ''Microsoft'' then
            do {
              c5 \<leftarrow> byteAt (Data (components ! 5)) 0;
              if c5 = CHR ''.'' \<and> Data (components ! 6) = ''Alpha('' then
                (let components = setData components 7 (ToLower (Data (components ! 7))) in
                 if Data (components ! 7) = ''opacity'' then
                   do {
                     c8 \<leftarrow> byteAt (Data (components ! 8)) 0;
                     if c8 = CHR ''='' then
                       do {
                         c10 \<leftarrow> byteAt (Data (components ! 10)) 0;
                         if c10 = CHR '')'' then Some (setData (drop 6 components) 0 ''alpha('')
                         else Some components
                       }
                     else Some components
                   }
                 else Some components)
              else Some components
            }
          else Some components
        }
      else Some components)"

text \<open>Lines 353-355: \<^verbatim>\<open>shortenToken\<close> on every value.\<close>

fun shortenValues :: "env \<Rightarrow> Hash \<Rightarrow> Token list \<Rightarrow> Token list option" where
  "shortenValues env prop [] = Some []"
| "shortenValues env prop (v # vs) =
     do {
       (tt, d) \<leftarrow> shortenToken env prop (TokenType v) (Data v);
       vs' \<leftarrow> shortenValues env prop vs;
       Some (v\<lparr>TokenType := tt, Data := d\<rparr> # vs')
     }"

text \<open>Lines 360-384: the loop that writes the values, with the current \<open>prevSep\<close>.\<close>

fun writeValueList :: "env \<Rightarrow> bool \<Rightarrow> Token list \<Rightarrow> bytes option" where
  "writeValueList env prevSep [] = Some []"
| "writeValueList env prevSep (value # rest) =
     do {
       slash \<leftarrow> isSlash value;
       body \<leftarrow> (if TokenType value = FunctionToken then minifyFunction env (Components value)
                else Some (Data value));
       out \<leftarrow> writeValueList env (TokenType value = CommaToken \<or> slash) rest;
       Some ((if \<not> prevSep \<and> TokenType value \<noteq> CommaToken \<and> \<not> slash then '' '' else [])
             @ body @ out)
     }"

text \<open>
  Lines 276-392: what \<^verbatim>\<open>minifyDeclaration\<close> writes for the components that remain
  after line 274, with the flag \<open>important\<close> of lines 270-274.
\<close>

definition writeDeclaration :: "env \<Rightarrow> bytes \<Rightarrow> css_Token list \<Rightarrow> bool \<Rightarrow> bytes option" where
  "writeDeclaration env property components important =
     do {
       (simple, values) \<leftarrow> segment components True [];
       let prop = ToHash env property;
       if \<not> simple then
         do {
           components \<leftarrow> (if prop = Filter \<and> length components = 11
                          then filterRewrite components else Some components);
           Some (writeValues components @ (if important then ''!important'' else []))
         }
       else
         do {
           values \<leftarrow> shortenValues env prop values;
           values \<leftarrow> (if length values > 0 then minifyProperty env prop values else Some values);
           out \<leftarrow> writeValueList env True values;
           Some (out @ (if important then ''!important'' else []))
         }
     }"

definition minifyDeclaration :: "env \<Rightarrow> bytes \<Rightarrow> css_Token list \<Rightarrow> bytes option" where
  "minifyDeclaration env property components =
     (if length components = 0 then Some []
      else
        do {
          (components, important) \<leftarrow> stripImportant env components;
          writeDeclaration env property components important
        })"

subsection \<open>minifySelectors (lines 203-236)\<close>

fun minifySelectors :: "env \<Rightarrow> bool \<Rightarrow> bool \<Rightarrow> css_Token list \<Rightarrow> bytes option" where
  "minifySelectors env inAttr isClass [] = Some []"
| "minifySelectors env inAttr isClass (val # rest) =
     (if \<not> inAttr then
        (if TokenType val = IdentToken then
           map_option ((@) (if \<not> isClass then ToLower (Data val) else Data val))
             (minifySelectors env inAttr False rest)
         else if TokenType val = DelimToken then
           (case Data val of
              [] \<Rightarrow> None
            | c # _ \<Rightarrow>
                map_option ((@) (Data val))
                  (minifySelectors env inAttr (if c = CHR ''.'' then True else isClass) rest))
         else if TokenType val = LeftBracketToken then
           map_option ((@) (Data val)) (minifySelectors env True isClass rest)
         else map_option ((@) (Data val)) (minifySelectors env inAttr isClass rest))
      else
        (if TokenType val = StringToken \<and> length (Data val) > 2 then
           (let s = take (length (Data val) - 2) (drop 1 (Data val)) in
            map_option ((@) (if IsIdent env s then s else Data val))
              (minifySelectors env inAttr isClass rest))
         else if TokenType val = RightBracketToken then
           map_option ((@) (Data val)) (minifySelectors env False isClass rest)
         else map_option ((@) (Data val)) (minifySelectors env inAttr isClass rest)))"

subsection \<open>minifyGrammar and Minify (lines 52-201)\<close>

text \<open>
  The errors that \<^verbatim>\<open>c.p.Err()\<close> returns: \<^verbatim>\<open>io.EOF\<close>, a \<^verbatim>\<open>*parse.Error\<close> with its
  message, or any other error.
\<close>

datatype error = EOF | ParseError string | OtherError string

text \<open>
  What one call of \<^verbatim>\<open>c.p.Next()\<close> yields: the grammar type, \<open>data\<close>, the tokens of
  \<^verbatim>\<open>c.p.Values()\<close> and, for \<open>ErrorGrammar\<close>, the error of \<^verbatim>\<open>c.p.Err()\<close>.  The
  parser is the list of the events it yields before the end of its input; after them
  \<^verbatim>\<open>Next\<close> yields \<open>ErrorGrammar\<close> with \<^verbatim>\<open>io.EOF\<close>.
\<close>

record event =
  ev_gt :: GrammarType
  ev_data :: bytes
  ev_values :: "css_Token list"
  ev_err :: error

text \<open>Lines 119-129: the URL of \<^verbatim>\<open>@import\<close> as a string.\<close>

definition importURL :: "bytes \<Rightarrow> bytes option" where
  "importURL url =
     (if length url < 5 then None
      else if url ! 4 \<noteq> CHR 0x22 \<and> url ! 4 \<noteq> CHR 0x27 then
        (let url = drop 3 url;
             url = url[0 := CHR 0x22];
             url = url[length url - 1 := CHR 0x22]
         in Some url)
      else Some (take (length url - 5) (drop 4 url)))"

text \<open>
  Lines 114-199: what is written for an event that is neither an error nor the end of
  a block, and \<open>semicolonQueued\<close> after it.
\<close>

definition minifyStatement :: "env \<Rightarrow> event \<Rightarrow> (bytes \<times> bool) option" where
  "minifyStatement env e =
     (let gt = ev_gt e; data = ev_data e; values = ev_values e in
      if gt = AtRuleGrammar then
        (if data = [] then None
         else
           do {
             values \<leftarrow>
               (if ToHash env (drop 1 data) = Import \<and> length values = 2
                   \<and> TokenType (values ! 1) = URLToken
                then map_option (setData values 1) (importURL (Data (values ! 1)))
                else Some values);
             Some (data @ writeValues values, True)
           })
      else if gt = BeginAtRuleGrammar then Some (data @ writeValues values @ ''{'', False)
      else if gt = QualifiedRuleGrammar then
        map_option (\<lambda>out. (out @ '','', False)) (minifySelectors env False False values)
      else if gt = BeginRulesetGrammar then
        map_option (\<lambda>out. (out @ ''{'', False)) (minifySelectors env False False values)
      else if gt = DeclarationGrammar then
        map_option (\<lambda>out. (data @ '':'' @ out, True)) (minifyDeclaration env data values)
      else if gt = CustomPropertyGrammar then
        (case values of [] \<Rightarrow> None | v # _ \<Rightarrow> Some (data @ '':'' @ Data v, True))
      else if gt = CommentGrammar then
        (if length data > 5 \<and> data ! 1 = CHR ''*'' \<and> data ! 2 = CHR ''!'' then
           Some (take 3 data
                 @ TrimWhitespace env
                     (ReplaceMultipleWhitespace env (take (length data - 5) (drop 3 data)))
                 @ drop (length data - 2) data, False)
         else Some ([], False))
      else Some (data, False))"

definition emit :: "bytes \<Rightarrow> (error \<times> bytes) option \<Rightarrow> (error \<times> bytes) option" where
  "emit out r = map_option (\<lambda>(err, rest). (err, out @ rest)) r"

text \<open>
  The loop of \<^verbatim>\<open>minifyGrammar\<close> (lines 69-201): the error it returns and the bytes it
  has written.
\<close>

fun minifyGrammar :: "env \<Rightarrow> bool \<Rightarrow> event list \<Rightarrow> (error \<times> bytes) option" where
  "minifyGrammar env semicolonQueued [] = Some (EOF, [])"
| "minifyGrammar env semicolonQueued (e # es) =
     (if ev_gt e = ErrorGrammar then
        (if ev_err e = ParseError ''unexpected token in declaration'' then
           (let vals = ev_values e;
                semicolon = (length vals > 0 \<and> TokenType (last vals) = SemicolonToken)
            in emit ((if semicolonQueued then '';'' else []) @ ev_data e
                     @ writeValues (if semicolon then butlast vals else vals))
                 (minifyGrammar env (semicolon \<or> semicolonQueued) es))
         else Some (ev_err e, []))
      else if ev_gt e = EndAtRuleGrammar \<or> ev_gt e = EndRulesetGrammar then
        emit ''}'' (minifyGrammar env False es)
      else
        (case minifyStatement env e of
           None \<Rightarrow> None
         | Some (out, queued) \<Rightarrow>
             emit ((if semicolonQueued then '';'' else []) @ out) (minifyGrammar env queued es)))"

text \<open>
  \<^verbatim>\<open>Minify\<close> (lines 52-67): the error it returns (\<open>None\<close> for \<^verbatim>\<open>nil\<close>) and the bytes
  written.
\<close>

definition Minify :: "env \<Rightarrow> event list \<Rightarrow> (error option \<times> bytes) option" where
  "Minify env events =
     map_option (\<lambda>(err, out). (if err \<noteq> EOF then Some err else None, out))
       (minifyGrammar env False events)"

subsection \<open>A configuration for the examples\<close>

text \<open>
  \<^verbatim>\<open>css.ToHash\<close> is case sensitive: a name has a hash when it is, byte for byte, an
  entry of the table.  These are the entries that the examples need.
\<close>

definition refHashTable :: "(bytes \<times> Hash) list" where
  "refHashTable =
     [(''import'', Import), (''important'', Important), (''filter'', Filter), (''font'', Font),
      (''font-family'', Font_Family), (''font-weight'', Font_Weight), (''margin'', Margin),
      (''padding'', Padding), (''border-width'', Border_Width), (''outline'', Outline),
      (''border'', Border), (''border-bottom'', Border_Bottom), (''border-left'', Border_Left),
      (''border-right'', Border_Right), (''border-top'', Border_Top),
      (''background'', Background), (''box-shadow'', Box_Shadow), (''-ms-filter'', Ms_Filter),
      (''rgb'', Rgb), (''rgba'', Rgba), (''hsl'', Hsl), (''hsla'', Hsla), (''local'', Local),
      (''z-index'', Z_Index), (''counter-increment'', Counter_Increment),
      (''counter-reset'', Counter_Reset), (''orphans'', Orphans), (''widows'', Widows),
      (''flex'', Flex), (''none'', None_Hash), (''normal'', Normal), (''bold'', Bold),
      (''xx-small'', Xx_Small), (''x-small'', X_Small), (''small'', Small), (''medium'', Medium),
      (''large'', Large), (''x-large'', X_Large), (''xx-large'', Xx_Large),
      (''smaller'', Smaller), (''larger'', Larger), (''inherit'', Inherit),
      (''initial'', Initial), (''unset'', Unset),
      (''color'', OtherHash ''color''), (''white'', OtherHash ''white''),
      (''black'', OtherHash ''black''), (''red'', OtherHash ''red'')]"

definition refToHash :: "bytes \<Rightarrow> Hash" where
  "refToHash name = (case map_of refHashTable name of Some h \<Rightarrow> h | None \<Rightarrow> Hash0)"

text \<open>
  The algorithm of the CSS colour module for \<^verbatim>\<open>hsl()\<close>, which \<^verbatim>\<open>css.HSL2RGB\<close>
  follows.
\<close>

definition hue2rgb :: "rat \<Rightarrow> rat \<Rightarrow> rat \<Rightarrow> rat" where
  "hue2rgb m1 m2 h0 =
     (let h = (if h0 < 0 then h0 + 1 else h0);
          h = (if h > 1 then h - 1 else h)
      in if h * 6 < 1 then m1 + (m2 - m1) * h * 6
         else if h * 2 < 1 then m2
         else if h * 3 < 2 then m1 + (m2 - m1) * (2 / 3 - h) * 6
         else m1)"

definition refHSL2RGB :: "rat \<Rightarrow> rat \<Rightarrow> rat \<Rightarrow> rat \<times> rat \<times> rat" where
  "refHSL2RGB h s l =
     (let m2 = (if l > 1 / 2 then l + s - l * s else l * (s + 1));
          m1 = l * 2 - m2
      in (hue2rgb m1 m2 (h + 1 / 3), hue2rgb m1 m2 h, hue2rgb m1 m2 (h - 1 / 3)))"

text \<open>
  The number formatter on the texts of the examples: \<^verbatim>\<open>0.5\<close> becomes \<^verbatim>\<open>.5\<close>, and
  a text that is already as short as it can be stays as it is.
\<close>

definition refNumber :: "bytes \<Rightarrow> int \<Rightarrow> bytes" where
  "refNumber num prec = (if num = ''0.5'' then ''.5'' else num)"

definition refTrim :: "bytes \<Rightarrow> bytes" where
  "refTrim b = rev (dropWhile (\<lambda>c. c = CHR '' '') (rev (dropWhile (\<lambda>c. c = CHR '' '') b)))"

text \<open>
  The options of \<^verbatim>\<open>DefaultMinifier\<close>, the value 0.00001 of \<^verbatim>\<open>minify.Epsilon\<close>, the
  entries of the colour tables that the examples need, and for the other functions
  their values on the inputs of the examples.
\<close>

definition refEnv :: env where
  "refEnv =
     \<lparr>ToHash = refToHash,
      IsIdent = (\<lambda>b. b \<noteq> [] \<and> list_all (\<lambda>c. c \<in> set ''abcdefghijklmnopqrstuvwxyz-'') b),
      IsURLUnquoted = (\<lambda>b. list_all (\<lambda>c. c \<notin> set [CHR '' '', CHR 0x22, CHR 0x27, CHR ''('', CHR '')'']) b),
      HSL2RGB = refHSL2RGB,
      parse_Number = (\<lambda>b. length (takeWhile (\<lambda>c. c \<in> set ''+-.0123456789'') b)),
      TrimWhitespace = refTrim,
      ReplaceMultipleWhitespace = (\<lambda>b. b),
      minify_Number = refNumber,
      minify_Decimal = refNumber,
      minify_DataURI = (\<lambda>b. b),
      minify_Epsilon = 1 / 100000,
      ShortenColorHex = map_of [(''#ff0000'', ''red''), (''#f00'', ''red''), (''#000080'', ''navy'')],
      ShortenColorName = map_of [(OtherHash ''white'', ''#fff''), (OtherHash ''black'', ''#000'')],
      optionalZeroDimension = (\<lambda>dim. dim \<in> set [''px'', ''em'', ''pt'', ''cm'', ''mm'', ''in'']),
      Decimals = - 1,
      KeepCSS2 = False\<rparr>"

text \<open>Tokens of the examples.\<close>

definition ctok :: "TokenType \<Rightarrow> bytes \<Rightarrow> css_Token" where
  "ctok tt d = \<lparr>TokenType = tt, Data = d\<rparr>"

definition vtok :: "TokenType \<Rightarrow> bytes \<Rightarrow> Token" where
  "vtok tt d = \<lparr>TokenType = tt, Data = d, Components = []\<rparr>"

text \<open>
  Events of the examples: a declaration without its colon, which the parser reports as
  the recoverable error; an error of the parser that is not recoverable; a declaration.
\<close>

definition badDeclaration :: event where
  "badDeclaration =
     \<lparr>ev_gt = ErrorGrammar, ev_data = ''color'',
      ev_values = [ctok WhitespaceToken '' '', ctok IdentToken ''red'', ctok SemicolonToken '';''],
      ev_err = ParseError ''unexpected token in declaration''\<rparr>"

definition brokenInput :: event where
  "brokenInput =
     \<lparr>ev_gt = ErrorGrammar, ev_data = [], ev_values = [],
      ev_err = OtherError ''unexpected EOF''\<rparr>"

definition widthDeclaration :: event where
  "widthDeclaration =
     \<lparr>ev_gt = DeclarationGrammar, ev_data = ''width'',
      ev_values = [ctok DimensionToken ''1px''], ev_err = EOF\<rparr>"



text \<open>
  \<^verbatim>\<open>rgba(0,0,0,p%)\<close> for a percentage \<open>p\<close>, \<^verbatim>\<open>rgba(1,2,3,.001)\<close>, and the events
  of a rule \<^verbatim>\<open>a{color: ...}\<close>.
\<close>

definition rgbaPercent :: "bytes \<Rightarrow> css_Token list" where
  "rgbaPercent p =
     [ctok FunctionToken ''rgba('', ctok NumberToken ''0'', ctok CommaToken '','',
      ctok NumberToken ''0'', ctok CommaToken '','', ctok NumberToken ''0'',
      ctok CommaToken '','', ctok PercentageToken (p @ ''%''),
      ctok RightParenthesisToken '')'']"

definition rgbaTiny :: "css_Token list" where
  "rgbaTiny =
     [ctok FunctionToken ''rgba('', ctok NumberToken ''1'', ctok CommaToken '','',
      ctok NumberToken ''2'', ctok CommaToken '','', ctok NumberToken ''3'',
      ctok CommaToken '','', ctok NumberToken ''.001'', ctok RightParenthesisToken '')'']"

definition ruleA :: event where
  "ruleA = \<lparr>ev_gt = BeginRulesetGrammar, ev_data = [], ev_values = [ctok IdentToken ''a''],
            ev_err = EOF\<rparr>"

definition ruleEnd :: event where
  "ruleEnd = \<lparr>ev_gt = EndRulesetGrammar, ev_data = ''}'', ev_values = [], ev_err = EOF\<rparr>"




definition colorDeclaration :: "css_Token list \<Rightarrow> event" where
  "colorDeclaration vs =
     \<lparr>ev_gt = DeclarationGrammar, ev_data = ''color'', ev_values = vs, ev_err = EOF\<rparr>"

subsection \<open>The hash-colour rule in the words of the specification\<close>

text \<open>
  Lowercasing replaces each of the 26 capital letters by its small letter and leaves
  every other byte as it is.  An 8-digit form with a redundant alpha byte collapses:
  alpha \<^verbatim>\<open>ff\<close> drops to the six digits, alpha \<^verbatim>\<open>00\<close> becomes the literal
  transparent marker.  A 6-digit form whose three pairs repeat a digit collapses to
  three digits, an 8-digit form to four.  The named form of the table is preferred to
  both.
\<close>

definition upperCase :: bytes where
  "upperCase = ''ABCDEFGHIJKLMNOPQRSTUVWXYZ''"

definition lowerCase :: bytes where
  "lowerCase = ''abcdefghijklmnopqrstuvwxyz''"

definition spec_lowerByte :: "char \<Rightarrow> char" where
  "spec_lowerByte c = (case map_of (zip upperCase lowerCase) c of Some l \<Rightarrow> l | None \<Rightarrow> c)"

definition spec_lower :: "bytes \<Rightarrow> bytes" where
  "spec_lower d = map spec_lowerByte d"

definition spec_collapseAlpha :: "bytes \<Rightarrow> bytes" where
  "spec_collapseAlpha d =
     (if length d = 9 \<and> d ! 7 = d ! 8 \<and> d ! 7 = CHR ''f'' then take 7 d
      else if length d = 9 \<and> d ! 7 = d ! 8 \<and> d ! 7 = CHR ''0'' then ''#0000''
      else d)"

definition spec_collapseNibbles :: "bytes \<Rightarrow> bytes" where
  "spec_collapseNibbles d =
     (if length d = 7 \<and> d ! 1 = d ! 2 \<and> d ! 3 = d ! 4 \<and> d ! 5 = d ! 6
      then [d ! 0, d ! 1, d ! 3, d ! 5]
      else if length d = 9 \<and> d ! 1 = d ! 2 \<and> d ! 3 = d ! 4 \<and> d ! 5 = d ! 6 \<and> d ! 7 = d ! 8
      then [d ! 0, d ! 1, d ! 3, d ! 5, d ! 7]
      else d)"

definition spec_shortenHash :: "env \<Rightarrow> bytes \<Rightarrow> TokenType \<times> bytes" where
  "spec_shortenHash env d =
     (let hex = spec_collapseAlpha (spec_lower d) in
      case ShortenColorHex env hex of
        Some name \<Rightarrow> (IdentToken, name)
      | None \<Rightarrow> (HashToken, spec_collapseNibbles hex))"

subsection \<open>Simple value lists, declaratively\<close>




definition spec_blockDelimiter :: "css_Token \<Rightarrow> bool" where
  "spec_blockDelimiter t =
     (TokenType t \<in> set [LeftParenthesisToken, LeftBraceToken, LeftBracketToken,
                         RightParenthesisToken, RightBraceToken, RightBracketToken])"

definition isSeparatorToken :: "css_Token \<Rightarrow> bool" where
  "isSeparatorToken t =
     (TokenType t = WhitespaceToken \<or> TokenType t = CommaToken
      \<or> (TokenType t = DelimToken \<and> take 1 (Data t) = ''/''))"



subsection \<open>Errors of the parser\<close>

text \<open>
  The error event from which the loop recovers, every other error event, and a list
  of recovered values that ends with a semicolon token.
\<close>

definition recoverable :: "event \<Rightarrow> bool" where
  "recoverable e =
     (ev_gt e = ErrorGrammar \<and> ev_err e = ParseError ''unexpected token in declaration'')"

definition fatal :: "event \<Rightarrow> bool" where
  "fatal e =
     (ev_gt e = ErrorGrammar \<and> ev_err e \<noteq> ParseError ''unexpected token in declaration'')"

definition endsWithSemicolon :: "css_Token list \<Rightarrow> bool" where
  "endsWithSemicolon vals = (vals \<noteq> [] \<and> TokenType (last vals) = SemicolonToken)"

subsection \<open>Auxiliary notions\<close>

text \<open>
  A text that ends with the percent sign, and the number that lines 721-725 of
  \<open>shortenToken\<close> format.
\<close>

definition endsPercent :: "bytes \<Rightarrow> bool" where
  "endsPercent s = (s \<noteq> [] \<and> last s = CHR ''%'')"

definition num :: "env \<Rightarrow> bytes \<Rightarrow> bytes" where
  "num env d = (if \<not> KeepCSS2 env then minify_Number env d (Decimals env)
                else minify_Decimal env d (Decimals env))"

section \<open>Properties\<close>

subsection \<open>Shorthand boxes\<close>

lemma componentsEqual_iff:
  "length xs = length ys \<Longrightarrow> componentsEqual xs ys = (xs = ys)"
  by (induction xs ys rule: list_induct2) auto

lemma Equal_iff: "Equal a b = (a = b)"
  by (cases a; cases b) (auto simp: Equal_def componentsEqual_iff)

lemma minifyBox_2: "minifyBox [a, b] = (if a = b then [a] else [a, b])"
  by (simp add: minifyBox_def Equal_iff)

lemma minifyBox_3:
  "minifyBox [a, b, c] = (if a = b \<and> a = c then [a] else if a = c then [a, b] else [a, b, c])"
  by (simp add: minifyBox_def Equal_iff)

lemma minifyBox_4:
  "minifyBox [a, b, c, d] =
     (if a = b \<and> a = c \<and> a = d then [a]
      else if a = c \<and> b = d then [a, b]
      else if b = d then [a, b, c]
      else [a, b, c, d])"
  by (auto simp add: minifyBox_def Equal_iff)

lemma minifyProperty_box:
  "prop = Margin \<or> prop = Padding \<or> prop = Border_Width \<Longrightarrow>
   minifyProperty env prop values = Some (minifyBox values)"
  by (auto simp: minifyProperty_def)

text \<open>
  Claim C1.  For \<^verbatim>\<open>margin\<close>, \<^verbatim>\<open>padding\<close> and \<^verbatim>\<open>border-width\<close>, \<open>minifyProperty\<close>
  collapses a list of two, three or four values: two equal values become one; three
  values become one when all are equal, else two when the first equals the third; four
  values become one when all are equal, else two when the first equals the third and the
  second the fourth, else three when the second equals the fourth.  Equality of values
  is \<^verbatim>\<open>Token.Equal\<close>, which is equality of kind, bytes and components
  (\<open>Equal_iff\<close>).  In particular the values of \<^verbatim>\<open>1px 1px 1px 1px\<close> become
  \<^verbatim>\<open>1px\<close> and those of \<^verbatim>\<open>1px 2px 1px 2px\<close> become \<^verbatim>\<open>1px 2px\<close>.
\<close>

theorem minifyProperty_quad_collapse:
  assumes "prop = Margin \<or> prop = Padding \<or> prop = Border_Width"
  shows
    "minifyProperty env prop [a, b] = Some (if a = b then [a] else [a, b])
     \<and> minifyProperty env prop [a, b, c] =
         Some (if a = b \<and> a = c then [a] else if a = c then [a, b] else [a, b, c])
     \<and> minifyProperty env prop [a, b, c, d] =
         Some (if a = b \<and> a = c \<and> a = d then [a]
               else if a = c \<and> b = d then [a, b]
               else if b = d then [a, b, c]
               else [a, b, c, d])
     \<and> minifyProperty env prop
          [vtok DimensionToken ''1px'', vtok DimensionToken ''1px'',
           vtok DimensionToken ''1px'', vtok DimensionToken ''1px'']
         = Some [vtok DimensionToken ''1px'']
     \<and> minifyProperty env prop
          [vtok DimensionToken ''1px'', vtok DimensionToken ''2px'',
           vtok DimensionToken ''1px'', vtok DimensionToken ''2px'']
         = Some [vtok DimensionToken ''1px'', vtok DimensionToken ''2px'']"
  using assms
  by (simp add: minifyProperty_box minifyBox_2 minifyBox_3 minifyBox_4 vtok_def del: One_nat_def)

theorem minifyProperty_quad_collapse_witness:
  "minifyProperty refEnv Margin [vtok IdentToken ''auto'', vtok IdentToken ''auto'']
     = Some [vtok IdentToken ''auto'']
   \<and> minifyProperty refEnv Padding
        [vtok NumberToken ''0'', vtok DimensionToken ''2px'', vtok NumberToken ''0'']
       = Some [vtok NumberToken ''0'', vtok DimensionToken ''2px'']
   \<and> minifyProperty refEnv Border_Width
        [vtok DimensionToken ''1px'', vtok DimensionToken ''2px'',
         vtok DimensionToken ''3px'', vtok DimensionToken ''2px'']
       = Some [vtok DimensionToken ''1px'', vtok DimensionToken ''2px'', vtok DimensionToken ''3px'']
   \<and> minifyProperty refEnv Margin
        [vtok DimensionToken ''1px'', vtok DimensionToken ''1px'',
         vtok DimensionToken ''1px'', vtok DimensionToken ''1px'']
       = Some [vtok DimensionToken ''1px'']"
  using minifyProperty_quad_collapse
      [of Margin refEnv "vtok IdentToken ''auto''" "vtok IdentToken ''auto''"]
    minifyProperty_quad_collapse
      [of Padding refEnv "vtok NumberToken ''0''" "vtok DimensionToken ''2px''"
         "vtok NumberToken ''0''"]
    minifyProperty_quad_collapse
      [of Border_Width refEnv "vtok DimensionToken ''1px''" "vtok DimensionToken ''2px''"
         "vtok DimensionToken ''3px''" "vtok DimensionToken ''2px''"]
  by (simp add: vtok_def)

subsection \<open>Hash colours and identifiers\<close>

lemma length_7: "length xs = 7 \<Longrightarrow> \<exists>a b c d e f g. xs = [a, b, c, d, e, f, g]"
  by (auto simp: numeral_eq_Suc length_Suc_conv)

lemma length_9: "length xs = 9 \<Longrightarrow> \<exists>a b c d e f g h i. xs = [a, b, c, d, e, f, g, h, i]"
  by (auto simp: numeral_eq_Suc length_Suc_conv)


lemma alpha_step:
  "(if length x = 9 \<and> x ! 7 = x ! 8 then
      (if x ! 7 = CHR ''f'' then take 7 x else if x ! 7 = CHR ''0'' then ''#0000'' else x)
    else x) = spec_collapseAlpha x"
  by (auto simp: spec_collapseAlpha_def)

lemma nibbles_7:
  "length y = 7 \<Longrightarrow> pairs3 y \<Longrightarrow> collapse3 y = [y ! 0, y ! 1, y ! 3, y ! 5]"
proof -
  assume "length y = 7" "pairs3 y"
  then obtain h r1 r2 g1 g2 b1 b2 where y: "y = [h, r1, r2, g1, g2, b1, b2]"
    using length_7 by blast
  show ?thesis unfolding y by (simp add: collapse3_def)
qed

lemma nibbles_9:
  "length y = 9 \<Longrightarrow> collapse4 y = [y ! 0, y ! 1, y ! 3, y ! 5, y ! 7]"
proof -
  assume "length y = 9"
  then obtain h r1 r2 g1 g2 b1 b2 a1 a2 where y: "y = [h, r1, r2, g1, g2, b1, b2, a1, a2]"
    using length_9 by blast
  show ?thesis unfolding y by (simp add: collapse4_def)
qed

lemma nibble_step:
  "(if length y = 7 \<and> pairs3 y then (HashToken, collapse3 y)
    else if length y = 9 \<and> pairs3 y \<and> y ! 7 = y ! 8 then (HashToken, collapse4 y)
    else (HashToken, y)) = (HashToken, spec_collapseNibbles y)"
  by (auto simp: spec_collapseNibbles_def nibbles_7 nibbles_9 pairs3_def)

lemma toLowerByte_spec: "\<forall>c. toLowerByte c = spec_lowerByte c"
  by code_simp

lemma ToLower_spec: "ToLower d = spec_lower d"
  by (simp add: ToLower_def spec_lower_def toLowerByte_spec)

lemma shortenHash_spec: "shortenHash env HashToken d = spec_shortenHash env d"
  unfolding shortenHash_def spec_shortenHash_def Let_def alpha_step nibble_step ToLower_spec ..

lemma spec_lower_ffffff: "spec_lower ''#ffffff'' = ''#ffffff''"
  by code_simp

lemma spec_lower_ff0000ff: "spec_lower ''#ff0000ff'' = ''#ff0000ff''"
  by code_simp

lemma spec_lower_AABBCC: "spec_lower ''#AABBCC'' = ''#aabbcc''"
  by code_simp

lemma spec_lower_FF0000FF: "spec_lower ''#FF0000FF'' = ''#ff0000ff''"
  by code_simp

lemma spec_FFAABBCC: "spec_shortenHash refEnv ''#FFAABBCC'' = (HashToken, ''#fabc'')"
  by code_simp

lemma spec_AABBCC00: "spec_shortenHash refEnv ''#AABBCC00'' = (HashToken, ''#0000'')"
  by code_simp

lemma refEnv_hex:
  "ShortenColorHex refEnv = map_of [(''#ff0000'', ''red''), (''#f00'', ''red''), (''#000080'', ''navy'')]"
  by (simp add: refEnv_def)

text \<open>
  Claim C3.  On a hash token \<open>shortenToken\<close> lowers the bytes (each capital letter
  becomes its small letter, every other byte stays), collapses a 9-byte
  form with two equal alpha digits \<^verbatim>\<open>ff\<close> (to the 6-digit form) or \<^verbatim>\<open>00\<close> (to
  \<^verbatim>\<open>#0000\<close>), returns the name of \<^verbatim>\<open>ShortenColorHex\<close> as an identifier when the
  result has an entry there, and otherwise collapses a 6-digit form of three repeated
  pairs to three digits and an 8-digit form of four repeated pairs to four digits.  In
  particular \<^verbatim>\<open>#ffffff\<close> gives \<^verbatim>\<open>#fff\<close> when the table has no entry for it, and
  \<^verbatim>\<open>#ff0000ff\<close> gives \<^verbatim>\<open>red\<close> when the table maps \<^verbatim>\<open>#ff0000\<close> to \<^verbatim>\<open>red\<close>; in
  capital letters, \<^verbatim>\<open>#AABBCC\<close> gives \<^verbatim>\<open>#abc\<close> and \<^verbatim>\<open>#FF0000FF\<close> gives
  \<^verbatim>\<open>red\<close> under the same conditions on the table.
\<close>

theorem shortenToken_hash_color:
  "shortenToken env prop HashToken d = Some (spec_shortenHash env d)
   \<and> (ShortenColorHex env ''#ffffff'' = None \<longrightarrow>
        shortenToken env prop HashToken ''#ffffff'' = Some (HashToken, ''#fff''))
   \<and> (ShortenColorHex env ''#ff0000'' = Some ''red'' \<longrightarrow>
        shortenToken env prop HashToken ''#ff0000ff'' = Some (IdentToken, ''red''))
   \<and> (ShortenColorHex env ''#aabbcc'' = None \<longrightarrow>
        shortenToken env prop HashToken ''#AABBCC'' = Some (HashToken, ''#abc''))
   \<and> (ShortenColorHex env ''#ff0000'' = Some ''red'' \<longrightarrow>
        shortenToken env prop HashToken ''#FF0000FF'' = Some (IdentToken, ''red''))"
  by (simp add: shortenToken_def shortenHash_spec spec_shortenHash_def spec_collapseAlpha_def
        spec_collapseNibbles_def spec_lower_ffffff spec_lower_ff0000ff spec_lower_AABBCC
        spec_lower_FF0000FF)

theorem shortenToken_hash_color_witness:
  "shortenToken refEnv (OtherHash ''color'') HashToken ''#ffffff'' = Some (HashToken, ''#fff'')
   \<and> shortenToken refEnv (OtherHash ''color'') HashToken ''#ff0000ff'' = Some (IdentToken, ''red'')
   \<and> shortenToken refEnv (OtherHash ''color'') HashToken ''#AABBCC'' = Some (HashToken, ''#abc'')
   \<and> shortenToken refEnv (OtherHash ''color'') HashToken ''#FF0000FF'' = Some (IdentToken, ''red'')
   \<and> shortenToken refEnv (OtherHash ''color'') HashToken ''#FFAABBCC'' = Some (HashToken, ''#fabc'')
   \<and> shortenToken refEnv (OtherHash ''color'') HashToken ''#AABBCC00'' = Some (HashToken, ''#0000'')"
  using shortenToken_hash_color [of refEnv "OtherHash ''color''" "''#FFAABBCC''"]
    shortenToken_hash_color [of refEnv "OtherHash ''color''" "''#AABBCC00''"]
  by (simp add: refEnv_hex spec_FFAABBCC spec_AABBCC00)

text \<open>
  Claim C4.  On an identifier \<open>shortenToken\<close> looks \<^verbatim>\<open>ShortenColorName\<close> up with
  the hash of the bytes as they are, and returns the bytes as they are when the table
  has no entry: the lowered copy is not used.  With the case-sensitive \<^verbatim>\<open>css.ToHash\<close>
  the identifier \<^verbatim>\<open>WHITE\<close> stays \<^verbatim>\<open>WHITE\<close>, while \<^verbatim>\<open>white\<close> becomes
  \<^verbatim>\<open>#fff\<close>.
\<close>

theorem shortenToken_ident_case_kept:
  "shortenToken env prop IdentToken d =
     Some (case ShortenColorName env (ToHash env d) of
             Some hex \<Rightarrow> (HashToken, hex)
           | None \<Rightarrow> (IdentToken, d))"
  by (simp add: shortenToken_def shortenIdent_def)

theorem shortenToken_ident_case_kept_witness:
  "shortenToken refEnv (OtherHash ''color'') IdentToken ''WHITE'' = Some (IdentToken, ''WHITE'')
   \<and> shortenToken refEnv (OtherHash ''color'') IdentToken ''white'' = Some (HashToken, ''#fff'')"
  using shortenToken_ident_case_kept [of refEnv "OtherHash ''color''" "''WHITE''"]
    shortenToken_ident_case_kept [of refEnv "OtherHash ''color''" "''white''"]
  by (simp add: refEnv_def refToHash_def refHashTable_def)

subsection \<open>Declarations\<close>








lemma block_not_separator: "spec_blockDelimiter t \<Longrightarrow> \<not> isSeparatorToken t"
  by (auto simp: spec_blockDelimiter_def isSeparatorToken_def)

lemma function_not_separator: "TokenType t = FunctionToken \<Longrightarrow> \<not> isSeparatorToken t"
  by (auto simp: isSeparatorToken_def)


















lemma writeDeclaration_important:
  "writeDeclaration env property cs True
     = map_option (\<lambda>out. out @ ''!important'') (writeDeclaration env property cs False)"
proof (cases "segment cs True []")
  case None
  then show ?thesis by (simp add: writeDeclaration_def)
next
  case (Some r)
  obtain simple vs where r: "r = (simple, vs)" by (cases r)
  have m: "map_option f x = Option.bind x (\<lambda>v. Some (f v))" for f :: "bytes \<Rightarrow> bytes" and x
    by (cases x) simp_all
  show ?thesis
    by (cases simple) (simp_all add: writeDeclaration_def Some r Let_def m)
qed

lemma stripImportant_marker:
  assumes "cs \<noteq> []" "TokenType bang = DelimToken" "Data bang = CHR ''!'' # r"
    "ToHash env (Data imp) = Important"
  shows "stripImportant env (cs @ [bang, imp]) = Some (cs, True)"
  using assms by (cases cs) (simp_all add: stripImportant_def nth_append)

text \<open>
  Claim C6, as amended.  When a component list of more than two tokens ends with a
  \<^verbatim>\<open>!\<close> delimiter followed by a token whose bytes hash to \<^verbatim>\<open>important\<close>, line 272
  removes the two tokens, and what \<open>minifyDeclaration\<close> writes is what it writes for
  the remaining components alone, on the simple and on the other path, followed by the
  bytes \<^verbatim>\<open>!important\<close>; these are the bytes of the two tokens when the tokens are
  \<^verbatim>\<open>!\<close> and \<^verbatim>\<open>important\<close>.
\<close>

theorem important_marker_frame:
  assumes "cs \<noteq> []" "TokenType bang = DelimToken" "Data bang = CHR ''!'' # r"
    "ToHash env (Data imp) = Important"
  shows
    "stripImportant env (cs @ [bang, imp]) = Some (cs, True)
     \<and> minifyDeclaration env property (cs @ [bang, imp])
         = map_option (\<lambda>out. out @ ''!important'') (writeDeclaration env property cs False)
     \<and> (Data bang = ''!'' \<and> Data imp = ''important'' \<longrightarrow>
          minifyDeclaration env property (cs @ [bang, imp])
            = map_option (\<lambda>out. out @ Data bang @ Data imp)
                (writeDeclaration env property cs False))"
proof -
  have strip: "stripImportant env (cs @ [bang, imp]) = Some (cs, True)"
    using assms by (rule stripImportant_marker)
  have main: "minifyDeclaration env property (cs @ [bang, imp])
      = map_option (\<lambda>out. out @ ''!important'') (writeDeclaration env property cs False)"
    by (simp add: minifyDeclaration_def strip writeDeclaration_important)
  have "Data bang = ''!'' \<and> Data imp = ''important'' \<longrightarrow>
          minifyDeclaration env property (cs @ [bang, imp])
            = map_option (\<lambda>out. out @ Data bang @ Data imp)
                (writeDeclaration env property cs False)"
    using main by simp
  with strip main show ?thesis by blast
qed

lemma marker_hash: "ToHash refEnv ''important'' = Important"
  by code_simp

lemma marker_body:
  "writeDeclaration refEnv ''margin''
     [ctok DimensionToken ''1px'', ctok WhitespaceToken '' '', ctok DimensionToken ''1px'']
     False = Some ''1px''"
  by code_simp

lemma marker_body2:
  "writeDeclaration refEnv ''margin''
     [ctok DimensionToken ''1px'', ctok LeftBracketToken ''['']
     False = Some ''1px[''"
  by code_simp

theorem important_marker_frame_witness:
  "minifyDeclaration refEnv ''margin''
     [ctok DimensionToken ''1px'', ctok WhitespaceToken '' '', ctok DimensionToken ''1px'',
      ctok DelimToken ''!'', ctok IdentToken ''important''] = Some ''1px!important''
   \<and> minifyDeclaration refEnv ''margin''
     [ctok DimensionToken ''1px'', ctok LeftBracketToken ''['',
      ctok DelimToken ''!'', ctok IdentToken ''important''] = Some ''1px[!important''"
  using important_marker_frame
      [of "[ctok DimensionToken ''1px'', ctok WhitespaceToken '' '', ctok DimensionToken ''1px'']"
          "ctok DelimToken ''!''" "[]" refEnv "ctok IdentToken ''important''" "''margin''"]
    important_marker_frame
      [of "[ctok DimensionToken ''1px'', ctok LeftBracketToken ''['']"
          "ctok DelimToken ''!''" "[]" refEnv "ctok IdentToken ''important''" "''margin''"]
    marker_hash marker_body marker_body2
  by (simp add: ctok_def)

text \<open>
  The claim as stated fails for a list of just the two tokens: \<^verbatim>\<open>len(components) > 2\<close>
  is false, nothing is stripped, and the segmentation reads both tokens.
\<close>

theorem important_alone_counterexample:
  "stripImportant refEnv [ctok DelimToken ''!'', ctok IdentToken ''important'']
     = Some ([ctok DelimToken ''!'', ctok IdentToken ''important''], False)
   \<and> segment [ctok DelimToken ''!'', ctok IdentToken ''important''] True []
     = Some (False, [vtok DelimToken ''!''])"
  by code_simp

subsection \<open>The grammar loop\<close>

lemma emit_simps [simp]:
  "emit out None = None"
  "emit out (Some (err, rest)) = Some (err, out @ rest)"
  by (simp_all add: emit_def)

lemma emit_emit: "emit a (emit b r) = emit (a @ b) r"
  by (cases r) (auto simp: emit_def)

lemma emit_error: "emit out r = Some (err, bs) \<Longrightarrow> \<exists>bs'. r = Some (err, bs')"
  by (cases r) (auto simp: emit_def)

lemma recoverable_step:
  "recoverable e \<Longrightarrow>
   minifyGrammar env q (e # es) =
     emit ((if q then '';'' else []) @ ev_data e
           @ writeValues (if endsWithSemicolon (ev_values e) then butlast (ev_values e)
                          else ev_values e))
       (minifyGrammar env (endsWithSemicolon (ev_values e) \<or> q) es)"
  by (simp add: recoverable_def endsWithSemicolon_def Let_def)

lemma fatal_step: "fatal e \<Longrightarrow> minifyGrammar env q (e # es) = Some (ev_err e, [])"
  by (simp add: fatal_def)

lemma nonfatal_step:
  assumes "\<not> fatal x"
  shows "(\<forall>rest. minifyGrammar env q (x # rest) = None)
         \<or> (\<exists>out q'. \<forall>rest. minifyGrammar env q (x # rest) = emit out (minifyGrammar env q' rest))"
proof (cases "ev_gt x = ErrorGrammar")
  case True
  with assms have "recoverable x" by (simp add: fatal_def recoverable_def)
  then show ?thesis using recoverable_step by blast
next
  case ne: False
  show ?thesis
  proof (cases "ev_gt x = EndAtRuleGrammar \<or> ev_gt x = EndRulesetGrammar")
    case True
    with ne have "\<forall>rest. minifyGrammar env q (x # rest) = emit ''}'' (minifyGrammar env False rest)"
      by simp
    then show ?thesis by blast
  next
    case False
    show ?thesis
    proof (cases "minifyStatement env x")
      case None
      with ne False show ?thesis by simp
    next
      case (Some r)
      obtain out queued where "r = (out, queued)" by (cases r)
      with ne False Some
      have "\<forall>rest. minifyGrammar env q (x # rest)
              = emit ((if q then '';'' else []) @ out) (minifyGrammar env queued rest)"
        by simp
      then show ?thesis by blast
    qed
  qed
qed

lemma first_fatal:
  assumes "list_all (\<lambda>x. \<not> fatal x) pre" "fatal e"
  shows "minifyGrammar env q (pre @ e # es) = minifyGrammar env q (pre @ [e])
         \<and> (\<forall>err out. minifyGrammar env q (pre @ [e]) = Some (err, out) \<longrightarrow> err = ev_err e)"
  using assms
proof (induction pre arbitrary: q)
  case Nil
  then show ?case by (simp add: fatal_step del: minifyGrammar.simps)
next
  case (Cons x pre)
  then have nf: "\<not> fatal x" and rest: "list_all (\<lambda>x. \<not> fatal x) pre" by simp_all
  from nonfatal_step [OF nf, of env q] show ?case
  proof
    assume "\<forall>rest. minifyGrammar env q (x # rest) = None"
    then show ?thesis by simp
  next
    assume "\<exists>out q'. \<forall>rest. minifyGrammar env q (x # rest) = emit out (minifyGrammar env q' rest)"
    then obtain out q' where
      step: "\<And>rest. minifyGrammar env q (x # rest) = emit out (minifyGrammar env q' rest)"
      by blast
    from Cons.IH [OF rest \<open>fatal e\<close>, of q']
    have eq: "minifyGrammar env q' (pre @ e # es) = minifyGrammar env q' (pre @ [e])"
      and err: "\<And>err out. minifyGrammar env q' (pre @ [e]) = Some (err, out) \<Longrightarrow> err = ev_err e"
      by blast+
    show ?thesis
      using step [of "pre @ e # es"] step [of "pre @ [e]"] eq err
      by (auto dest: emit_error)
  qed
qed

lemma no_fatal:
  "list_all (\<lambda>x. \<not> fatal x) events \<Longrightarrow> minifyGrammar env q events = Some (err, out) \<Longrightarrow>
   err = EOF"
proof (induction events arbitrary: q out)
  case Nil
  then show ?case by simp
next
  case (Cons x events)
  then have nf: "\<not> fatal x" and rest: "list_all (\<lambda>x. \<not> fatal x) events" by simp_all
  from nonfatal_step [OF nf, of env q] show ?case
  proof
    assume "\<forall>rest. minifyGrammar env q (x # rest) = None"
    with Cons.prems show ?thesis by simp
  next
    assume "\<exists>o1 q'. \<forall>rest. minifyGrammar env q (x # rest) = emit o1 (minifyGrammar env q' rest)"
    then obtain o1 q' where
      step: "\<And>rest. minifyGrammar env q (x # rest) = emit o1 (minifyGrammar env q' rest)"
      by blast
    with Cons.prems obtain o2 where "minifyGrammar env q' events = Some (err, o2)"
      by (auto dest: emit_error)
    with Cons.IH [OF rest] show ?thesis by blast
  qed
qed

text \<open>
  Claim C7, as amended.  The loop recovers only from the parser error
  \<^verbatim>\<open>unexpected token in declaration\<close>: it writes a pending semicolon, the bytes of the
  declaration and the bytes of the recovered value tokens unchanged, except that a
  last semicolon token is not written but sets the pending-semicolon flag, and goes on
  with the next event.  At the first error event of any other kind the pass stops,
  whatever follows, and \<open>Minify\<close> returns that error, or \<^verbatim>\<open>nil\<close> when it is
  \<^verbatim>\<open>io.EOF\<close>; without such an event \<open>Minify\<close> returns \<^verbatim>\<open>nil\<close> at the end of the
  input.
\<close>

theorem minifyGrammar_errors:
  "(recoverable e \<and> \<not> endsWithSemicolon (ev_values e) \<longrightarrow>
      minifyGrammar env False (e # es)
        = emit (ev_data e @ writeValues (ev_values e)) (minifyGrammar env False es))
   \<and> (recoverable e \<and> endsWithSemicolon (ev_values e) \<longrightarrow>
      minifyGrammar env False (e # es)
        = emit (ev_data e @ writeValues (butlast (ev_values e))) (minifyGrammar env True es))
   \<and> (recoverable e \<longrightarrow>
      minifyGrammar env True (e # es)
        = emit ('';'' @ ev_data e
                @ writeValues (if endsWithSemicolon (ev_values e) then butlast (ev_values e)
                               else ev_values e))
            (minifyGrammar env True es))
   \<and> (list_all (\<lambda>x. \<not> fatal x) pre \<and> fatal e \<longrightarrow>
      Minify env (pre @ e # es) = Minify env (pre @ [e])
      \<and> (\<forall>r out. Minify env (pre @ e # es) = Some (r, out) \<longrightarrow>
            r = (if ev_err e = EOF then None else Some (ev_err e))))
   \<and> (list_all (\<lambda>x. \<not> fatal x) pre \<longrightarrow>
      (\<forall>r out. Minify env pre = Some (r, out) \<longrightarrow> r = None))"
proof -
  have a: "recoverable e \<and> \<not> endsWithSemicolon (ev_values e) \<longrightarrow>
      minifyGrammar env False (e # es)
        = emit (ev_data e @ writeValues (ev_values e)) (minifyGrammar env False es)"
    by (simp add: recoverable_step del: minifyGrammar.simps)
  have b: "recoverable e \<and> endsWithSemicolon (ev_values e) \<longrightarrow>
      minifyGrammar env False (e # es)
        = emit (ev_data e @ writeValues (butlast (ev_values e))) (minifyGrammar env True es)"
    by (simp add: recoverable_step del: minifyGrammar.simps)
  have c: "recoverable e \<longrightarrow>
      minifyGrammar env True (e # es)
        = emit ('';'' @ ev_data e
                @ writeValues (if endsWithSemicolon (ev_values e) then butlast (ev_values e)
                               else ev_values e))
            (minifyGrammar env True es)"
    by (simp add: recoverable_step del: minifyGrammar.simps)
  have d: "list_all (\<lambda>x. \<not> fatal x) pre \<and> fatal e \<longrightarrow>
      Minify env (pre @ e # es) = Minify env (pre @ [e])
      \<and> (\<forall>r out. Minify env (pre @ e # es) = Some (r, out) \<longrightarrow>
            r = (if ev_err e = EOF then None else Some (ev_err e)))"
  proof
    assume h: "list_all (\<lambda>x. \<not> fatal x) pre \<and> fatal e"
    from first_fatal [of pre e env False es] h
    have eq: "minifyGrammar env False (pre @ e # es) = minifyGrammar env False (pre @ [e])"
      and err: "\<And>err out. minifyGrammar env False (pre @ [e]) = Some (err, out) \<Longrightarrow> err = ev_err e"
      by blast+
    show "Minify env (pre @ e # es) = Minify env (pre @ [e])
      \<and> (\<forall>r out. Minify env (pre @ e # es) = Some (r, out) \<longrightarrow>
            r = (if ev_err e = EOF then None else Some (ev_err e)))"
      using eq err by (cases "minifyGrammar env False (pre @ [e])") (auto simp: Minify_def)
  qed
  have f: "list_all (\<lambda>x. \<not> fatal x) pre \<longrightarrow>
      (\<forall>r out. Minify env pre = Some (r, out) \<longrightarrow> r = None)"
    using no_fatal [of pre env False]
    by (cases "minifyGrammar env False pre") (auto simp: Minify_def)
  from a b c d f show ?thesis by blast
qed

theorem minifyGrammar_errors_witness:
  "recoverable badDeclaration \<and> endsWithSemicolon (ev_values badDeclaration)
   \<and> fatal brokenInput \<and> list_all (\<lambda>x. \<not> fatal x) [badDeclaration, widthDeclaration]
   \<and> minifyGrammar refEnv False [badDeclaration, widthDeclaration]
       = emit ''color red'' (minifyGrammar refEnv True [widthDeclaration])
   \<and> Minify refEnv [badDeclaration, widthDeclaration] = Some (None, ''color red;width:1px'')
   \<and> Minify refEnv [badDeclaration, brokenInput, widthDeclaration]
       = Some (Some (OtherError ''unexpected EOF''), ''color red'')"
proof -
  have r: "recoverable badDeclaration" and s: "endsWithSemicolon (ev_values badDeclaration)"
    and f: "fatal brokenInput"
    and nf: "list_all (\<lambda>x. \<not> fatal x) [badDeclaration]"
    and nf2: "list_all (\<lambda>x. \<not> fatal x) [badDeclaration, widthDeclaration]"
    by (simp_all add: recoverable_def endsWithSemicolon_def fatal_def badDeclaration_def
          brokenInput_def widthDeclaration_def ctok_def)
  have w: "ev_data badDeclaration @ writeValues (butlast (ev_values badDeclaration)) = ''color red''"
    by (simp add: badDeclaration_def writeValues_def ctok_def)
  from minifyGrammar_errors [of badDeclaration refEnv "[widthDeclaration]" "[]"] r s w
  have 1: "minifyGrammar refEnv False [badDeclaration, widthDeclaration]
       = emit ''color red'' (minifyGrammar refEnv True [widthDeclaration])"
    by simp
  have 2: "Minify refEnv [badDeclaration, widthDeclaration] = Some (None, ''color red;width:1px'')"
    by code_simp
  from minifyGrammar_errors [of brokenInput refEnv "[widthDeclaration]" "[badDeclaration]"] nf f
  have 3: "Minify refEnv ([badDeclaration] @ brokenInput # [widthDeclaration])
             = Minify refEnv ([badDeclaration] @ [brokenInput])"
    by blast
  have 4: "Minify refEnv [badDeclaration, brokenInput]
             = Some (Some (OtherError ''unexpected EOF''), ''color red'')"
    by code_simp
  from r s f nf2 1 2 3 4 show ?thesis by simp
qed

text \<open>
  The claim as stated fails: the semicolon among the recovered tokens of the last
  statement is never written.
\<close>

theorem recovered_semicolon_counterexample:
  "Minify refEnv [badDeclaration] = Some (None, ''color red'')
   \<and> ev_data badDeclaration @ writeValues (ev_values badDeclaration) = ''color red;''"
  by code_simp

subsection \<open>Colour functions\<close>







lemma percent_not_digit: "\<not> isDigit CHR ''%''"
  by code_simp

lemma endsPercent_splitSign: "endsPercent s \<Longrightarrow> endsPercent (snd (splitSign s))"
  by (cases s) (auto simp: endsPercent_def splitSign_def split: if_splits)

lemma last_dropWhile: "dropWhile P s \<noteq> [] \<Longrightarrow> last (dropWhile P s) = last s"
  by (induction s) (auto split: if_splits)

lemma endsPercent_dropWhile: "endsPercent s \<Longrightarrow> endsPercent (dropWhile isDigit s)"
proof -
  assume e: "endsPercent s"
  then have "last s \<in> set s" "\<not> isDigit (last s)"
    using last_in_set [of s] by (auto simp: endsPercent_def percent_not_digit)
  then have "dropWhile isDigit s \<noteq> []" by (auto simp: dropWhile_eq_Nil_conv)
  with e show ?thesis by (simp add: endsPercent_def last_dropWhile)
qed

lemma endsPercent_tl: "endsPercent (c # r) \<Longrightarrow> c \<noteq> CHR ''%'' \<Longrightarrow> endsPercent r"
  by (auto simp: endsPercent_def split: if_splits)

lemma endsPercent_mantissa:
  "endsPercent s \<Longrightarrow> endsPercent (snd (snd (parseMantissa s)))"
proof -
  assume "endsPercent s"
  then have d: "endsPercent (dropWhile isDigit s)" by (rule endsPercent_dropWhile)
  show ?thesis
  proof (cases "dropWhile isDigit s")
    case Nil
    with d show ?thesis by (simp add: endsPercent_def)
  next
    case (Cons c r)
    show ?thesis
    proof (cases "c = CHR ''.''")
      case True
      with d Cons have "endsPercent r" by (auto intro: endsPercent_tl)
      then have "endsPercent (dropWhile isDigit r)" by (rule endsPercent_dropWhile)
      with Cons True show ?thesis by (simp add: parseMantissa_def)
    next
      case False
      with d Cons show ?thesis by (simp add: parseMantissa_def)
    qed
  qed
qed

lemma endsPercent_exponent: "endsPercent r \<Longrightarrow> parseExponent r = None"
proof -
  assume "endsPercent r"
  then have "endsPercent (snd (splitSign r))" by (rule endsPercent_splitSign)
  then have "\<not> list_all isDigit (snd (splitSign r))"
    using last_in_set [of "snd (splitSign r)"] percent_not_digit
    by (auto simp: endsPercent_def list_all_iff)
  then show ?thesis by (simp add: parseExponent_def split_def)
qed

lemma ParseFloat_percent: "endsPercent s \<Longrightarrow> ParseFloat s = None"
proof -
  assume "endsPercent s"
  then have "endsPercent (snd (snd (parseMantissa (snd (splitSign s)))))"
    by (intro endsPercent_mantissa endsPercent_splitSign)
  then obtain c r where s3: "snd (snd (parseMantissa (snd (splitSign s)))) = c # r"
    and e: "endsPercent (c # r)"
    by (cases "snd (snd (parseMantissa (snd (splitSign s))))") (auto simp: endsPercent_def)
  show ?thesis
  proof (cases "c = CHR ''e'' \<or> c = CHR ''E''")
    case True
    then have "c \<noteq> CHR ''%''" by auto
    with e have "endsPercent r" by (rule endsPercent_tl)
    then have "parseExponent r = None" by (rule endsPercent_exponent)
    with s3 True show ?thesis by (simp add: ParseFloat_def split_def Let_def)
  next
    case False
    with s3 show ?thesis by (simp add: ParseFloat_def split_def Let_def)
  qed
qed

lemma floatOf_percent: "floatOf (x @ ''%'') = 0"
  by (simp add: floatOf_def ParseFloat_percent endsPercent_def)

lemma shortenToken_number:
  "shortenToken env Hash0 NumberToken d = Some (NumberToken, num env d)"
  by (simp add: shortenToken_def shortenNumber_def num_def)

lemma shortenToken_percentage:
  "shortenToken env Hash0 PercentageToken (p @ ''%'') = Some (PercentageToken, num env p @ ''%'')"
  by (simp add: shortenToken_def shortenNumber_def num_def)

lemma mod2_Suc_Suc: "Suc (Suc n) mod 2 = n mod 2"
  by presburger

lemma scan_rgbaPercent:
  "scanArguments 0 (take (length (rgbaPercent p) - 2) (drop 1 (rgbaPercent p)))
     = Some (True, [1, 3, 5, 7])"
  by (simp add: rgbaPercent_def ctok_def isSeparator_def isNumeric_def mod2_Suc_Suc)

lemma shorten_rgbaPercent:
  "shortenArguments env [1, 3, 5, 7] (rgbaPercent p) =
     Some [ctok FunctionToken ''rgba('', ctok NumberToken (num env ''0''), ctok CommaToken '','',
      ctok NumberToken (num env ''0''), ctok CommaToken '','', ctok NumberToken (num env ''0''),
      ctok CommaToken '','', ctok PercentageToken (num env p @ ''%''),
      ctok RightParenthesisToken '')'']"
  by (simp add: rgbaPercent_def ctok_def shortenToken_number shortenToken_percentage)

text \<open>
  Claim C2.  The claim holds for an alpha argument that is a number; for one that is a
  percentage the code departs from it.  The percentage keeps its sign \<^verbatim>\<open>%\<close> after
  shortening, \<^verbatim>\<open>strconv.ParseFloat\<close> fails on it and gives 0, and the colour becomes
  \<^verbatim>\<open>#0000\<close> whatever the percentage is: \<^verbatim>\<open>rgba(0,0,0,50%)\<close> is written as the
  transparent colour.
\<close>

theorem percentage_alpha_transparent:
  "ToHash env ''rgba'' = Rgba \<and> 0 < minify_Epsilon env \<longrightarrow>
     minifyFunction env (rgbaPercent p) = Some ''#0000''"
proof
  assume h: "ToHash env ''rgba'' = Rgba \<and> 0 < minify_Epsilon env"
  have n: "length (rgbaPercent p) = 9" and d0: "Data (rgbaPercent p ! 0) = ''rgba(''"
    by (simp_all add: rgbaPercent_def ctok_def)
  have c: "minifyColor env Rgba [1, 3, 5, 7] (rgbaPercent p) = Some ''#0000''"
    unfolding minifyColor_def shorten_rgbaPercent
    using h by (simp add: ctok_def floatOf_percent)
  from h n d0 c scan_rgbaPercent [of p]
  show "minifyFunction env (rgbaPercent p) = Some ''#0000''"
    by (simp add: minifyFunction_def Let_def)
qed

lemma rgba_hash: "ToHash refEnv ''rgba'' = Rgba" by code_simp
lemma ref_epsilon: "minify_Epsilon refEnv = 1 / 100000" by (simp add: refEnv_def)

theorem percentage_alpha_transparent_witness:
  "ToHash refEnv ''rgba'' = Rgba \<and> 0 < minify_Epsilon refEnv
   \<and> minifyFunction refEnv (rgbaPercent ''50'') = Some ''#0000''"
  using percentage_alpha_transparent [of refEnv "''50''"] rgba_hash ref_epsilon by simp

lemma scan_rgbaTiny:
  "scanArguments 0 (take (length rgbaTiny - 2) (drop 1 rgbaTiny)) = Some (True, [1, 3, 5, 7])"
  by code_simp

lemma shorten_rgbaTiny:
  "shortenArguments env [1, 3, 5, 7] rgbaTiny =
     Some [ctok FunctionToken ''rgba('', ctok NumberToken (num env ''1''), ctok CommaToken '','',
      ctok NumberToken (num env ''2''), ctok CommaToken '','', ctok NumberToken (num env ''3''),
      ctok CommaToken '','', ctok NumberToken (num env ''.001''),
      ctok RightParenthesisToken '')'']"
  by (simp add: rgbaTiny_def ctok_def shortenToken_number)

lemma byteOf_tiny: "byteOf (1 / 1000 * 255 + 1 / 2) = 0"
  by code_simp

lemma hex_01020300: "ToLower (CHR ''#'' # hexEncode [Suc 0, 2, 3, 0]) = ''#01020300''"
  by code_simp

lemma ToLower_01020300: "ToLower ''#01020300'' = ''#01020300''"
  by code_simp

lemma shortenColor_01020300: "shortenColor env ''#01020300'' 0 = ''#01020300''"
  by (simp add: shortenColor_def pairs3_def)

lemma shortenHash_01020300:
  "ShortenColorHex env ''#0000'' = None \<Longrightarrow>
   shortenToken env prop HashToken ''#01020300'' = Some (HashToken, ''#0000'')"
  by (simp add: shortenToken_def shortenHash_def ToLower_01020300)

text \<open>
  Claim C8.  Minifying is not idempotent.  For \<^verbatim>\<open>rgba(1,2,3,.001)\<close> the alpha byte is
  0 and the function is written as \<^verbatim>\<open>#01020300\<close>; read again as a hash token, this
  colour is shortened to \<^verbatim>\<open>#0000\<close>.  The formatter of numbers is only assumed to keep
  the values of the four arguments.
\<close>

theorem function_output_not_stable:
  "ToHash env ''rgba'' = Rgba \<and> \<not> KeepCSS2 env \<and> minify_Epsilon env \<le> 1 / 1000
   \<and> intOf (minify_Number env ''1'' (Decimals env)) = 1
   \<and> intOf (minify_Number env ''2'' (Decimals env)) = 2
   \<and> intOf (minify_Number env ''3'' (Decimals env)) = 3
   \<and> floatOf (minify_Number env ''.001'' (Decimals env)) = 1 / 1000
   \<and> ShortenColorHex env ''#0000'' = None \<longrightarrow>
     minifyFunction env rgbaTiny = Some ''#01020300''
     \<and> shortenToken env prop HashToken ''#01020300'' = Some (HashToken, ''#0000'')"
proof
  assume h: "ToHash env ''rgba'' = Rgba \<and> \<not> KeepCSS2 env \<and> minify_Epsilon env \<le> 1 / 1000
   \<and> intOf (minify_Number env ''1'' (Decimals env)) = 1
   \<and> intOf (minify_Number env ''2'' (Decimals env)) = 2
   \<and> intOf (minify_Number env ''3'' (Decimals env)) = 3
   \<and> floatOf (minify_Number env ''.001'' (Decimals env)) = 1 / 1000
   \<and> ShortenColorHex env ''#0000'' = None"
  then have nums: "intOf (num env ''1'') = 1" "intOf (num env ''2'') = 2"
    "intOf (num env ''3'') = 3"
    and f: "floatOf (num env ''.001'') = 1 / 1000"
    and kc: "\<not> KeepCSS2 env"
    by (simp_all add: num_def)
  have a: "byteOf (floatOf (num env ''.001'') * 255 + 1 / 2) = 0"
    by (simp only: f byteOf_tiny)
  have lt: "\<not> floatOf (num env ''.001'') < minify_Epsilon env"
    using h f by simp
  have ge: "\<not> 1 \<le> floatOf (num env ''.001'')"
    by (simp add: f)
  have n: "length rgbaTiny = 9" and d0: "Data (rgbaTiny ! 0) = ''rgba(''"
    by (simp_all add: rgbaTiny_def ctok_def)
  have c: "minifyColor env Rgba [1, 3, 5, 7] rgbaTiny = Some ''#01020300''"
    unfolding minifyColor_def shorten_rgbaTiny
    by (simp add: ctok_def Let_def setData_def argument_def rgbChannel_def
          a lt ge nums kc hex_01020300 shortenColor_01020300)
  from h n d0 c scan_rgbaTiny
  have 1: "minifyFunction env rgbaTiny = Some ''#01020300''"
    by (simp add: minifyFunction_def Let_def)
  from h have 2: "shortenToken env prop HashToken ''#01020300'' = Some (HashToken, ''#0000'')"
    by (simp add: shortenHash_01020300)
  from 1 2
  show "minifyFunction env rgbaTiny = Some ''#01020300''
     \<and> shortenToken env prop HashToken ''#01020300'' = Some (HashToken, ''#0000'')"
    by simp
qed

lemma first_pass:
  "Minify refEnv [ruleA, colorDeclaration rgbaTiny, ruleEnd] = Some (None, ''a{color:#01020300}'')"
  by code_simp

lemma second_pass:
  "Minify refEnv [ruleA, colorDeclaration [ctok HashToken ''#01020300''], ruleEnd]
     = Some (None, ''a{color:#0000}'')"
  by code_simp

lemma ref_tiny:
  "\<not> KeepCSS2 refEnv" "minify_Epsilon refEnv \<le> 1 / 1000"
  "intOf (minify_Number refEnv ''1'' (Decimals refEnv)) = 1"
  "intOf (minify_Number refEnv ''2'' (Decimals refEnv)) = 2"
  "intOf (minify_Number refEnv ''3'' (Decimals refEnv)) = 3"
  "floatOf (minify_Number refEnv ''.001'' (Decimals refEnv)) = 1 / 1000"
  "ShortenColorHex refEnv ''#0000'' = None"
  by code_simp+

theorem function_output_not_stable_witness:
  "minifyFunction refEnv rgbaTiny = Some ''#01020300''
   \<and> shortenToken refEnv (OtherHash ''color'') HashToken ''#01020300'' = Some (HashToken, ''#0000'')
   \<and> Minify refEnv [ruleA, colorDeclaration rgbaTiny, ruleEnd]
       = Some (None, ''a{color:#01020300}'')
   \<and> Minify refEnv [ruleA, colorDeclaration [ctok HashToken ''#01020300''], ruleEnd]
       = Some (None, ''a{color:#0000}'')"
  using function_output_not_stable [of refEnv "OtherHash ''color''"] rgba_hash ref_tiny
    first_pass second_pass
  by simp

lemma hueLoop_le: "h \<le> 360 \<Longrightarrow> hueLoop h = h"
  by (subst hueLoop.simps) simp

lemma floatOf_m300: "floatOf ''-300'' = - 300" by code_simp
lemma floatOf_100: "floatOf ''100'' = 100" by code_simp
lemma floatOf_50: "floatOf ''50'' = 50" by code_simp
lemma hueLoop_420: "hueLoop 420 = 60"
proof -
  have "hueLoop 420 = hueLoop 60" by (subst hueLoop.simps) simp
  then show ?thesis by (simp add: hueLoop_le)
qed

text \<open>
  Claim C9.  The loop of lines 639-641 only subtracts 360 while the hue is above 360: a
  hue of at most 360, a negative one in particular, reaches the conversion as it is.
  For \<^verbatim>\<open>hsl(-300,100%,50%)\<close> the conversion is called with the hue \<open>-5/6\<close> of a
  turn, not with \<open>1/6\<close>.
\<close>

theorem hue_above_only:
  "(h \<le> 360 \<longrightarrow> hueLoop h = h)
   \<and> hueLoop (- 300) = - 300 \<and> hueLoop 420 = 60
   \<and> hslBytes env (ctok NumberToken ''-300'') (ctok PercentageToken ''100%'')
        (ctok PercentageToken ''50%'') a
       = (case HSL2RGB env (- 5 / 6) 1 (1 / 2) of
            (r, g, b) \<Rightarrow>
              Some [byteOf (r * 255 + 1 / 2), byteOf (g * 255 + 1 / 2),
                    byteOf (b * 255 + 1 / 2), a])"
  by (simp add: hueLoop_le hueLoop_420 hslBytes_def ctok_def floatOf_m300 floatOf_100
        floatOf_50 clampPercent_def)

theorem hue_above_only_witness:
  "hueLoop (- 120) = - 120 \<and> hueLoop (- 300) \<noteq> 60 \<and> hueLoop 420 = 60"
  using hue_above_only [of "- 120"] by simp

end
